theory Spec2Isabelle
  imports
    Main
    "HOL-Library.Char_ord"
    "HOL-Library.List_Lexorder"
    "HOL-Library.Sublist"
    "HOL-Library.Word"
begin

section \<open>The supply phase of the ruby-freetds buildpack\<close>

text \<open>
  A shallow embedding of \<^verbatim>\<open>src/ruby/supply/supply.go\<close>. Every method of
  \<^verbatim>\<open>Supplier\<close> becomes a function that takes the state of the run and returns
  the Go result together with the new state; a Go \<^verbatim>\<open>error\<close> result is the left
  injection of a sum, \<^verbatim>\<open>nil\<close> the right one.
\<close>

subsection \<open>Strings\<close>

text \<open>\<^verbatim>\<open>strings.Split(s, "\n")\<close>: the pieces between line feeds, never an empty list.\<close>

fun split_nl :: "string \<Rightarrow> string list" where
  "split_nl [] = [[]]"
| "split_nl (c # cs) =
     (if c = CHR 0x0A then [] # split_nl cs
      else (case split_nl cs of [] \<Rightarrow> [[c]] | l # ls \<Rightarrow> (c # l) # ls))"

text \<open>\<^verbatim>\<open>strings.Join(xs, sep)\<close>.\<close>

fun join :: "string \<Rightarrow> string list \<Rightarrow> string" where
  "join sep [] = []"
| "join sep [x] = x"
| "join sep (x # y # ys) = x @ sep @ join sep (y # ys)"

subsection \<open>IndentedWriter\<close>

text \<open>
  \<^verbatim>\<open>type IndentedWriter struct { w io.Writer; pad string }\<close>. The wrapped writer is
  modelled by the bytes it has received so far.
\<close>

record IndentedWriter =
  iw_w :: string
  iw_pad :: string

text \<open>The argument that \<^verbatim>\<open>Write\<close> builds for its last line, \<^verbatim>\<open>w.Write(p)\<close>.\<close>

definition repad :: "IndentedWriter \<Rightarrow> string \<Rightarrow> string" where
  "repad w p = join [CHR 0x0A] (map (\<lambda>line. iw_pad w @ line) (split_nl p))"

text \<open>
  \<^verbatim>\<open>func (w *IndentedWriter) Write(p []byte) (n int, err error)\<close>. The result, when
  there is one, is the receiver after the call, the count and the error. The call in
  the last line is on the receiver itself, not on the wrapped writer, so the function
  is defined as the least fixed point of its own equation and \<open>None\<close> stands for a
  call that does not return.
\<close>

partial_function (option) Write ::
  "IndentedWriter \<Rightarrow> string \<Rightarrow> (IndentedWriter \<times> nat \<times> string option) option" where
  "Write w p = Write w (repad w p)"

text \<open>
  The receiver and the argument of the \<open>n\<close>-th nested call that \<open>Write w p\<close> makes
  (\<open>n = 0\<close> is the call itself).
\<close>

fun Write_call :: "nat \<Rightarrow> IndentedWriter \<Rightarrow> string \<Rightarrow> IndentedWriter \<times> string" where
  "Write_call 0 w p = (w, p)"
| "Write_call (Suc n) w p = Write_call n w (repad w p)"

subsection \<open>Errors, paths and the file system\<close>

text \<open>A Go \<^verbatim>\<open>error\<close> value, by its message.\<close>

datatype error = Error string

fun error_msg :: "error \<Rightarrow> string" where
  "error_msg (Error m) = m"

text \<open>
  A path is the list of its components below the root, so \<^verbatim>\<open>filepath.Join(d, "a", "b")\<close>
  is \<open>d @ [''a'', ''b'']\<close>. The file system is an association list from paths to
  nodes; a path is present when it has an entry.
\<close>

type_synonym path = "string list"

datatype node = File string | Dir | Symlink string

type_synonym filesystem = "(path \<times> node) list"

definition lookup :: "('k \<times> 'v) list \<Rightarrow> 'k \<Rightarrow> 'v option" where
  "lookup fs p = map_of fs p"

definition present :: "('k \<times> 'v) list \<Rightarrow> 'k \<Rightarrow> bool" where
  "present fs p = (lookup fs p \<noteq> None)"

text \<open>Writing an entry replaces the one that \<open>lookup\<close> finds, or adds the entry at the end.\<close>

fun put :: "'k \<Rightarrow> 'v \<Rightarrow> ('k \<times> 'v) list \<Rightarrow> ('k \<times> 'v) list" where
  "put p n [] = [(p, n)]"
| "put p n ((q, m) # fs) = (if q = p then (p, n) # fs else (q, m) # put p n fs)"

text \<open>The entries at or below a path, and the file system without them.\<close>

definition below :: "path \<Rightarrow> filesystem \<Rightarrow> filesystem" where
  "below p fs = filter (\<lambda>(q, n). prefix p q) fs"

definition without :: "path \<Rightarrow> filesystem \<Rightarrow> filesystem" where
  "without p fs = filter (\<lambda>(q, n). \<not> prefix p q) fs"

text \<open>
  The operations of the operating system and of libbuildpack that the supplier calls.
  Each can fail for a reason outside the file system's contents (permissions, a full
  disk); \<open>io_fault\<close> of the run's surroundings says for which operation and path
  that happens. An operation that fails so leaves the file system as it was; what an
  operation has done before it fails for another reason stays done (\<open>writeToFile\<close>).
\<close>

datatype io_op =
    OpStat | OpRemove | OpRemoveAll | OpMkdirAll | OpCopyFile | OpCopyDirectory
  | OpReadDir | OpReadFile | OpRename | OpTempDir | OpCp | OpSymlink | OpWriteEnvFile

text \<open>\<^verbatim>\<open>libbuildpack.Dependency\<close>.\<close>

record dependency =
  dep_name :: string
  dep_version :: string

text \<open>\<^verbatim>\<open>exec.Cmd\<close>, as far as the supplier fills it in.\<close>

record command =
  cmd_name :: string
  cmd_args :: "string list"
  cmd_dir :: path
  cmd_env :: "string list"

subsection \<open>The collaborators\<close>

text \<open>
  What the interfaces \<^verbatim>\<open>Stager\<close>, \<^verbatim>\<open>Manifest\<close>, \<^verbatim>\<open>Installer\<close>,
  \<^verbatim>\<open>Versions\<close>, \<^verbatim>\<open>Command\<close> and the operating system answer during one run.
  They are parameters of every function below.

  \<^item> \<open>archive\<close>: the entries (relative path and node) of the archive that the
    installer unpacks for a dependency, or the installer's error.
  \<^item> \<open>FindMatchingVersion\<close>: \<^verbatim>\<open>libbuildpack.FindMatchingVersion\<close>.
  \<^item> \<open>LinkDirectoryInDepDir\<close>: the effect of the stager's linking on the file system.
  \<^item> \<open>CommandRun\<close>: the result of an external process and the file system it leaves.
  \<^item> \<open>temp_name\<close>: the name \<^verbatim>\<open>ioutil.TempDir("", prefix)\<close> picks under \<open>/tmp\<close>.
\<close>

record collab =
  BuildDir :: path
  DepDir :: path
  Gemfile :: path
  AllDependencyVersions :: "string \<Rightarrow> string list"
  DefaultVersion :: "string \<Rightarrow> error + dependency"
  FindMatchingVersion :: "string \<Rightarrow> string list \<Rightarrow> error + string"
  archive :: "dependency \<Rightarrow> error + filesystem"
  LinkDirectoryInDepDir :: "path \<Rightarrow> string \<Rightarrow> filesystem \<Rightarrow> error + filesystem"
  CheckBundler2Compatibility :: "error + bool"
  Engine :: "error + string"
  Version :: "error + string"
  JrubyVersion :: "error + string"
  HasGemVersion :: "string \<Rightarrow> string list \<Rightarrow> error + bool"
  HasWindowsGemfileLock :: "error + bool"
  CommandOutput :: "path \<Rightarrow> string \<Rightarrow> string list \<Rightarrow> error + string"
  CommandRun :: "command \<Rightarrow> filesystem \<Rightarrow> (error + unit) \<times> filesystem"
  temp_name :: "string \<Rightarrow> string"
  io_fault :: "io_op \<Rightarrow> path \<Rightarrow> bool"

subsection \<open>The state of a run\<close>

datatype log_entry =
  Warning string | Info string | Debug string | BeginStep string | LogError string | Stdout string

text \<open>Calls to collaborators, recorded in the order they are made.\<close>

datatype call =
    CallInstallDependency dependency path
  | CallCheckBundler2Compatibility
  | CallHasGemVersion string
  | CallCommandOutput path string "string list"
  | CallCommandRun command
  | CallCopyDirToTemp path

text \<open>
  The fields of \<^verbatim>\<open>Supplier\<close> that change (\<open>cachedNeedsNode\<close>, \<open>needsNode\<close>,
  \<open>appHasGemfile\<close>, \<open>appHasGemfileLock\<close>), the bundler version held by
  \<^verbatim>\<open>Versions\<close>, the file system, the process environment, the environment files
  written by the stager, the log and the calls made so far.
\<close>

record world =
  filesys :: filesystem
  environ :: "(string \<times> string) list"
  env_files :: "(string \<times> string) list"
  logged :: "log_entry list"
  calls :: "call list"
  bundlerVersion :: string
  cachedNeedsNode :: bool
  needsNode :: bool
  appHasGemfile :: bool
  appHasGemfileLock :: bool

definition Log :: "log_entry \<Rightarrow> world \<Rightarrow> world" where
  "Log e w = w\<lparr>logged := logged w @ [e]\<rparr>"

definition called :: "call \<Rightarrow> world \<Rightarrow> world" where
  "called e w = w\<lparr>calls := calls w @ [e]\<rparr>"

subsection \<open>File operations\<close>

definition is_file :: "filesystem \<Rightarrow> path \<Rightarrow> bool" where
  "is_file fs p = (case lookup fs p of Some (File s) \<Rightarrow> True | _ \<Rightarrow> False)"

text \<open>\<^verbatim>\<open>libbuildpack.FileExists\<close>: \<^verbatim>\<open>os.Stat\<close>, where "does not exist" is the answer
  \<open>false\<close> and any other failure is an error. \<^verbatim>\<open>os.Stat\<close> of a path through a
  regular file fails with "not a directory", which is such an other failure.\<close>

definition FileExists :: "collab \<Rightarrow> path \<Rightarrow> filesystem \<Rightarrow> error + bool" where
  "FileExists c p fs =
     (if io_fault c OpStat p then Inl (Error ''stat'')
      else if list_ex (is_file fs) (butlast (prefixes p)) then Inl (Error ''not a directory'')
      else Inr (present fs p))"

text \<open>\<^verbatim>\<open>os.RemoveAll\<close>: removes the path and everything below it; a missing path is
  no error.\<close>

definition os_RemoveAll :: "collab \<Rightarrow> path \<Rightarrow> filesystem \<Rightarrow> error + filesystem" where
  "os_RemoveAll c p fs =
     (if io_fault c OpRemoveAll p then Inl (Error ''RemoveAll'') else Inr (without p fs))"

text \<open>\<^verbatim>\<open>os.Remove\<close>: removes one file or empty directory.\<close>

definition os_Remove :: "collab \<Rightarrow> path \<Rightarrow> filesystem \<Rightarrow> error + filesystem" where
  "os_Remove c p fs =
     (if io_fault c OpRemove p \<or> \<not> present fs p \<or> length (below p fs) \<noteq> 1
      then Inl (Error ''remove'')
      else Inr (without p fs))"

text \<open>\<^verbatim>\<open>os.MkdirAll\<close>: creates the directory and its missing parents; fails when a
  component of the path is a file.\<close>

definition os_MkdirAll :: "collab \<Rightarrow> path \<Rightarrow> filesystem \<Rightarrow> error + filesystem" where
  "os_MkdirAll c p fs =
     (if io_fault c OpMkdirAll p \<or> list_ex (is_file fs) (prefixes p)
      then Inl (Error ''mkdir'')
      else Inr (fold (\<lambda>q fs'. if q = [] \<or> present fs' q then fs' else put q Dir fs')
                  (prefixes p) fs))"

text \<open>
  \<^verbatim>\<open>writeToFile\<close> of libbuildpack: creates the parent directory of the destination,
  opens the destination for writing (creating or truncating it; a directory cannot be
  opened so) and copies the source into it. The source is the bytes of a regular file, or
  \<open>None\<close> for an opened directory, from which reading fails; the destination has been
  created or truncated by then. What was done before a failure stays done.
\<close>

definition writeToFile ::
  "collab \<Rightarrow> string option \<Rightarrow> path \<Rightarrow> filesystem \<Rightarrow> (error + unit) \<times> filesystem" where
  "writeToFile c source dst fs =
     (case os_MkdirAll c (butlast dst) fs of
        Inl e \<Rightarrow> (Inl e, fs)
      | Inr fs1 \<Rightarrow>
          if lookup fs1 dst = Some Dir then (Inl (Error ''open: is a directory''), fs1)
          else (case source of
                  Some s \<Rightarrow> (Inr (), put dst (File s) fs1)
                | None \<Rightarrow> (Inl (Error ''read: is a directory''), put dst (File []) fs1)))"

text \<open>\<^verbatim>\<open>libbuildpack.CopyFile\<close>: opens the source and hands it to \<open>writeToFile\<close>. A
  regular file and a directory can be opened; a fault of the surroundings is a source
  that cannot be opened. Symbolic links are not followed here: a link as source fails
  at open.\<close>

definition CopyFile ::
  "collab \<Rightarrow> path \<Rightarrow> path \<Rightarrow> filesystem \<Rightarrow> (error + unit) \<times> filesystem" where
  "CopyFile c src dst fs =
     (if io_fault c OpCopyFile src then (Inl (Error ''copy''), fs)
      else (case lookup fs src of
              Some (File s) \<Rightarrow> writeToFile c (Some s) dst fs
            | Some Dir \<Rightarrow> writeToFile c None dst fs
            | _ \<Rightarrow> (Inl (Error ''open''), fs)))"

text \<open>\<^verbatim>\<open>libbuildpack.CopyDirectory\<close>: the destination must exist; every entry below
  the source is written at the same place below the destination.\<close>

definition CopyDirectory :: "collab \<Rightarrow> path \<Rightarrow> path \<Rightarrow> filesystem \<Rightarrow> error + filesystem" where
  "CopyDirectory c src dst fs =
     (if \<not> present fs dst then Inl (Error ''destination dir must exist'')
      else if io_fault c OpCopyDirectory src \<or> lookup fs src \<noteq> Some Dir
      then Inl (Error ''readdir'')
      else Inr (fold (\<lambda>(q, n) fs'. if q = src then fs' else put (dst @ drop (length src) q) n fs')
                  (below src fs) fs))"

text \<open>The path with a suffix appended to its last component, as in
  \<^verbatim>\<open>fmt.Sprintf("%s.lock", path)\<close>.\<close>

definition path_suffix :: "path \<Rightarrow> string \<Rightarrow> path" where
  "path_suffix p s = (if p = [] then [s] else butlast p @ [last p @ s])"

subsection \<open>The installer\<close>

text \<open>
  Modelled from the spec: the Dependency Installer is an external collaborator which,
  "given a resolved dependency, materializes its archive into a target directory".
  \<^verbatim>\<open>Installer.InstallDependency(dep, dir)\<close> creates the target directory and writes
  every entry of the dependency's archive below it.
\<close>

definition InstallDependency ::
  "collab \<Rightarrow> dependency \<Rightarrow> path \<Rightarrow> world \<Rightarrow> (error + unit) \<times> world" where
  "InstallDependency c dep dir w =
     (let w1 = called (CallInstallDependency dep dir) w in
      case archive c dep of
        Inl e \<Rightarrow> (Inl e, w1)
      | Inr entries \<Rightarrow>
          (case os_MkdirAll c dir (filesys w1) of
             Inl e \<Rightarrow> (Inl e, w1)
           | Inr fs1 \<Rightarrow>
               (Inr (), w1\<lparr>filesys := fold (\<lambda>(rel, n). put (dir @ rel) n) entries fs1\<rparr>)))"

subsection \<open>Setup and DetermineRuby\<close>

definition Setup :: "collab \<Rightarrow> world \<Rightarrow> (error + unit) \<times> world" where
  "Setup c w =
     (case FileExists c (Gemfile c) (filesys w) of
        Inl e \<Rightarrow> (Inl (Error (''unable to determine if Gemfile exists: '' @ error_msg e)), w)
      | Inr exists \<Rightarrow>
          (let w1 = w\<lparr>appHasGemfile := exists\<rparr> in
           case FileExists c (path_suffix (Gemfile c) ''.lock'') (filesys w1) of
             Inl e \<Rightarrow>
               (Inl (Error (''Unable to determine if Gemfile.lock exists: '' @ error_msg e)), w1)
           | Inr exists' \<Rightarrow> (Inr (), w1\<lparr>appHasGemfileLock := exists'\<rparr>)))"

definition no_version_warning :: "string \<Rightarrow> log_entry" where
  "no_version_warning rubyVersion =
     Warning (''You have not declared a Ruby version in your Gemfile.'' @ [CHR 0x0A] @
              ''Defaulting to '' @ rubyVersion @ [CHR 0x0A] @
              ''See http://docs.cloudfoundry.org/buildpacks/ruby/index.html#runtime for more information.'')"

text \<open>\<^verbatim>\<open>func (s *Supplier) DetermineRuby() (string, string, error)\<close>: the engine and
  the version, or the error.\<close>

definition DetermineRuby :: "collab \<Rightarrow> world \<Rightarrow> (error + string \<times> string) \<times> world" where
  "DetermineRuby c w =
     (if \<not> appHasGemfile w then
        (case DefaultVersion c ''ruby'' of
           Inl e \<Rightarrow>
             (Inl (Error (''unable to determine default ruby version: '' @ error_msg e)), w)
         | Inr dep \<Rightarrow> (Inr (''ruby'', dep_version dep), w))
      else
        (case Engine c of
           Inl e \<Rightarrow> (Inl (Error (''unable to determine ruby engine: '' @ error_msg e)), w)
         | Inr engine \<Rightarrow>
             if engine = ''ruby'' then
               (case Version c of
                  Inl e \<Rightarrow>
                    (Inl (Error (''Unable to determine ruby version: '' @ error_msg e)), w)
                | Inr rubyVersion \<Rightarrow>
                    if rubyVersion = [] then
                      (case DefaultVersion c ''ruby'' of
                         Inl e \<Rightarrow>
                           (Inl (Error (''Unable to determine ruby version: '' @ error_msg e)), w)
                       | Inr dep \<Rightarrow>
                           (Inr (engine, dep_version dep),
                            Log (no_version_warning (dep_version dep)) w))
                    else (Inr (engine, rubyVersion), w))
             else if engine = ''jruby'' then
               (case JrubyVersion c of
                  Inl e \<Rightarrow>
                    (Inl (Error (''Unable to determine jruby version: '' @ error_msg e)), w)
                | Inr rubyVersion \<Rightarrow> (Inr (engine, rubyVersion), w))
             else (Inl (Error (''Sorry, we do not support engine: '' @ engine)), w)))"

subsection \<open>InstallBundler\<close>

definition SetBundlerVersion :: "string \<Rightarrow> world \<Rightarrow> world" where
  "SetBundlerVersion v w = w\<lparr>bundlerVersion := v\<rparr>"

definition GetBundlerVersion :: "world \<Rightarrow> string" where
  "GetBundlerVersion w = bundlerVersion w"

definition installBundlerOne :: "collab \<Rightarrow> world \<Rightarrow> (error + string) \<times> world" where
  "installBundlerOne c w =
     (case FindMatchingVersion c ''1.X.X'' (AllDependencyVersions c ''bundler'') of
        Inl e \<Rightarrow>
          (Inl (Error (''failure to install Bundler matching constraint, 1.X.X: '' @ error_msg e)), w)
      | Inr version \<Rightarrow>
          (case InstallDependency c \<lparr>dep_name = ''bundler'', dep_version = version\<rparr>
                  (DepDir c @ [''bundler'']) w of
             (Inl e, w1) \<Rightarrow> (Inl e, w1)
           | (Inr u, w1) \<Rightarrow>
               (case LinkDirectoryInDepDir c (DepDir c @ [''bundler'', ''bin'']) ''bin'' (filesys w1) of
                  Inl e \<Rightarrow> (Inl e, w1)
                | Inr fs1 \<Rightarrow> (Inr version, w1\<lparr>filesys := fs1\<rparr>))))"

text \<open>The statements of \<open>installBundlerTwo\<close> after \<^verbatim>\<open>defer os.RemoveAll(installDir)\<close>:
  the error or success, and the file system they leave in either case.\<close>

definition copyBundlerTwo ::
  "collab \<Rightarrow> string \<Rightarrow> path \<Rightarrow> filesystem \<Rightarrow> (error + unit) \<times> filesystem" where
  "copyBundlerTwo c version installDir fs0 =
     (let gemName = ''bundler-'' @ version;
          destDir = DepDir c @ [''bundler'', ''gems'', gemName] in
      case os_MkdirAll c destDir fs0 of
        Inl e \<Rightarrow> (Inl e, fs0)
      | Inr fs1 \<Rightarrow>
          (case CopyDirectory c (installDir @ [''gems'', gemName]) destDir fs1 of
             Inl e \<Rightarrow> (Inl e, fs1)
           | Inr fs2 \<Rightarrow>
               CopyFile c (installDir @ [''specifications'', gemName @ ''.gemspec''])
                 (DepDir c @ [''bundler'', ''specifications'', gemName @ ''.gemspec'']) fs2))"

text \<open>A deferred \<^verbatim>\<open>os.RemoveAll\<close>: it runs when the function returns and its error is
  dropped.\<close>

definition deferred_RemoveAll :: "collab \<Rightarrow> path \<Rightarrow> filesystem \<Rightarrow> filesystem" where
  "deferred_RemoveAll c p fs0 = (case os_RemoveAll c p fs0 of Inl e \<Rightarrow> fs0 | Inr fs1 \<Rightarrow> fs1)"

definition installBundlerTwo :: "collab \<Rightarrow> world \<Rightarrow> (error + string) \<times> world" where
  "installBundlerTwo c w =
     (case FindMatchingVersion c ''2.X.X'' (AllDependencyVersions c ''bundler'') of
        Inl e \<Rightarrow>
          (Inl (Error (''failure to install Bundler matching constraint, 2.X.X: '' @ error_msg e)), w)
      | Inr version \<Rightarrow>
          (let installDir = DepDir c @ [''bundler2''] in
           case InstallDependency c \<lparr>dep_name = ''bundler'', dep_version = version\<rparr> installDir w of
             (Inl e, w1) \<Rightarrow> (Inl e, w1)
           | (Inr u, w1) \<Rightarrow>
               (case copyBundlerTwo c version installDir (filesys w1) of
                  (Inl e, fs1) \<Rightarrow> (Inl e, w1\<lparr>filesys := deferred_RemoveAll c installDir fs1\<rparr>)
                | (Inr u', fs1) \<Rightarrow>
                    (Inr version, w1\<lparr>filesys := deferred_RemoveAll c installDir fs1\<rparr>))))"

definition uninstallBundlerTwo :: "collab \<Rightarrow> world \<Rightarrow> (error + unit) \<times> world" where
  "uninstallBundlerTwo c w =
     (case FindMatchingVersion c ''2.X.X'' (AllDependencyVersions c ''bundler'') of
        Inl e \<Rightarrow>
          (Inl (Error (''failure to install Bundler matching constraint, 2.X.X: '' @ error_msg e)), w)
      | Inr version \<Rightarrow>
          (let gemName = ''bundler-'' @ version in
           case os_RemoveAll c (DepDir c @ [''bundler'', ''gems'', gemName]) (filesys w) of
             Inl e \<Rightarrow> (Inl e, w)
           | Inr fs1 \<Rightarrow>
               (case os_RemoveAll c
                       (DepDir c @ [''bundler'', ''specifications'', gemName @ ''.gemspec'']) fs1 of
                  Inl e \<Rightarrow> (Inl e, w\<lparr>filesys := fs1\<rparr>)
                | Inr fs2 \<Rightarrow> (Inr (), w\<lparr>filesys := fs2\<rparr>))))"

definition bundler2_warning :: log_entry where
  "bundler2_warning = Warning ''Ruby version not compatible with Bundler 2''"

definition InstallBundler :: "collab \<Rightarrow> world \<Rightarrow> (error + unit) \<times> world" where
  "InstallBundler c w =
     (case installBundlerOne c w of
        (Inl e, w1) \<Rightarrow> (Inl e, w1)
      | (Inr bundlerOneVersion, w1) \<Rightarrow>
          (let w2 = SetBundlerVersion bundlerOneVersion w1 in
           if \<not> appHasGemfile w2 then (Inr (), w2)
           else
             (case installBundlerTwo c w2 of
                (Inl e, w3) \<Rightarrow> (Inl e, w3)
              | (Inr bundlerTwoVersion, w3) \<Rightarrow>
                  (let w4 = called CallCheckBundler2Compatibility
                              (SetBundlerVersion bundlerTwoVersion w3) in
                   case CheckBundler2Compatibility c of
                     Inl e \<Rightarrow> (Inl e, w4)
                   | Inr ok \<Rightarrow>
                       if ok then (Inr (), w4)
                       else uninstallBundlerTwo c
                              (SetBundlerVersion bundlerOneVersion (Log bundler2_warning w4))))))"

subsection \<open>NeedsNode\<close>

definition isNodeInstalled :: "collab \<Rightarrow> world \<Rightarrow> bool \<times> world" where
  "isNodeInstalled c w =
     (let w1 = called (CallCommandOutput (BuildDir c) ''node'' [''--version'']) w in
      case CommandOutput c (BuildDir c) ''node'' [''--version''] of
        Inl e \<Rightarrow> (False, w1)
      | Inr out \<Rightarrow> (True, w1))"

text \<open>The loop \<^verbatim>\<open>for _, name := range []string{"webpacker", "execjs"}\<close> of
  \<open>NeedsNode\<close>; the first equation's \<open>Inr True\<close> branch is its \<^verbatim>\<open>break\<close>.\<close>

fun probe_gems :: "collab \<Rightarrow> string list \<Rightarrow> world \<Rightarrow> world" where
  "probe_gems c [] w = w"
| "probe_gems c (name # names) w =
     (let w1 = called (CallHasGemVersion name) (Log (Debug (''Test '' @ name @ '' in gemfile'')) w) in
      case HasGemVersion c name [''>=0.0.0''] of
        Inl e \<Rightarrow> probe_gems c names w1
      | Inr hasgem \<Rightarrow>
          if hasgem
          then (Log (Debug (''Found '' @ name @ '' in gemfile'')) w1)\<lparr>needsNode := True\<rparr>
          else probe_gems c names w1)"

definition NeedsNode :: "collab \<Rightarrow> world \<Rightarrow> bool \<times> world" where
  "NeedsNode c w =
     (if cachedNeedsNode w then (needsNode w, w)
      else
        (let w1 = w\<lparr>cachedNeedsNode := True, needsNode := False\<rparr> in
         case isNodeInstalled c w1 of
           (True, w2) \<Rightarrow>
             (let w3 = Log (BeginStep ''Skipping install of nodejs since it has been supplied'') w2
              in (needsNode w3, w3))
         | (False, w2) \<Rightarrow>
             (let w3 = probe_gems c [''webpacker'', ''execjs''] w2 in (needsNode w3, w3))))"

subsection \<open>The environment materializer\<close>

text \<open>\<^verbatim>\<open>os.Getenv\<close>: the value of the variable, empty when the variable is not set.\<close>

definition os_Getenv :: "(string \<times> string) list \<Rightarrow> string \<Rightarrow> string" where
  "os_Getenv env k = (case lookup env k of None \<Rightarrow> [] | Some v \<Rightarrow> v)"

text \<open>\<^verbatim>\<open>os.Setenv\<close> refuses an empty name, a name with \<open>=\<close> or a NUL byte and a
  value with a NUL byte; \<open>valid_env\<close> holds for the names and values it accepts.\<close>

definition valid_env :: "string \<Rightarrow> string \<Rightarrow> bool" where
  "valid_env k v =
     (\<not> (k = [] \<or> CHR ''='' \<in> set k \<or> CHR 0x00 \<in> set k \<or> CHR 0x00 \<in> set v))"

definition os_Setenv ::
  "string \<Rightarrow> string \<Rightarrow> (string \<times> string) list \<Rightarrow> error + (string \<times> string) list" where
  "os_Setenv k v env =
     (if valid_env k v then Inr (put k v env) else Inl (Error ''setenv: invalid argument''))"

text \<open>
  Modelled from the spec: every applied variable is "persisted to a per-variable
  environment file". \<^verbatim>\<open>Stager.WriteEnvFile(name, value)\<close> stores the value under the
  variable's name, or fails and stores nothing.
\<close>

definition WriteEnvFile :: "collab \<Rightarrow> string \<Rightarrow> string \<Rightarrow> world \<Rightarrow> (error + unit) \<times> world" where
  "WriteEnvFile c envVar envVal w =
     (if io_fault c OpWriteEnvFile [envVar] then (Inl (Error ''write env file''), w)
      else (Inr (), w\<lparr>env_files := put envVar envVal (env_files w)\<rparr>))"

text \<open>
  \<^verbatim>\<open>func (s *Supplier) writeEnvFiles(environment map[string]string, clobber bool) error\<close>.
  The list holds the entries of the map in the order in which this \<^verbatim>\<open>range\<close> visits
  them. \<^verbatim>\<open>_ = os.Setenv(...)\<close> drops the error of \<open>os_Setenv\<close>.
\<close>

fun writeEnvFiles ::
  "collab \<Rightarrow> (string \<times> string) list \<Rightarrow> bool \<Rightarrow> world \<Rightarrow> (error + unit) \<times> world" where
  "writeEnvFiles c [] clobber w = (Inr (), w)"
| "writeEnvFiles c ((envVar, envDefault) # environment) clobber w =
     (if os_Getenv (environ w) envVar = [] \<or> clobber then
        (let w1 = (case os_Setenv envVar envDefault (environ w) of
                     Inl e \<Rightarrow> w
                   | Inr env \<Rightarrow> w\<lparr>environ := env\<rparr>) in
         case WriteEnvFile c envVar envDefault w1 of
           (Inl e, w2) \<Rightarrow> (Inl e, w2)
         | (Inr u, w2) \<Rightarrow> writeEnvFiles c environment clobber w2)
      else writeEnvFiles c environment clobber w)"

text \<open>A path as a string, \<open>/a/b\<close>.\<close>

definition path_string :: "path \<Rightarrow> string" where
  "path_string p = CHR ''/'' # join ''/'' p"

text \<open>The entries of the map \<^verbatim>\<open>environmentDefaults\<close> in \<^verbatim>\<open>CreateDefaultEnv\<close>. Go ranges
  over a map in an order that it does not fix; the list has the entries in one such
  order.\<close>

definition environmentDefaults :: "collab \<Rightarrow> (string \<times> string) list" where
  "environmentDefaults c =
     [(''RAILS_ENV'', ''production''),
      (''RACK_ENV'', ''production''),
      (''RAILS_GROUPS'', ''assets''),
      (''BUNDLE_WITHOUT'', ''development:test''),
      (''BUNDLE_GEMFILE'', ''Gemfile''),
      (''BUNDLE_BIN'', path_string (DepDir c @ [''binstubs''])),
      (''BUNDLE_CONFIG'', path_string (DepDir c @ [''bundle_config''])),
      (''GEM_HOME'', path_string (DepDir c @ [''gem_home''])),
      (''GEM_PATH'', join '':'' [path_string (DepDir c @ [''bundler'']),
                                 path_string (DepDir c @ [''gem_home''])])]"

definition CreateDefaultEnv :: "collab \<Rightarrow> world \<Rightarrow> (error + unit) \<times> world" where
  "CreateDefaultEnv c w = writeEnvFiles c (environmentDefaults c) False w"

subsection \<open>Paths as strings\<close>

text \<open>\<^verbatim>\<open>filepath.Base\<close>.\<close>

definition base :: "path \<Rightarrow> string" where
  "base p = (if p = [] then ''/'' else last p)"

text \<open>\<^verbatim>\<open>filepath.Clean\<close> on the components: \<open>.\<close> is dropped and \<open>..\<close> removes the
  component before it.\<close>

definition clean :: "path \<Rightarrow> path" where
  "clean p = fold (\<lambda>x acc. if x = ''.'' then acc else if x = ''..'' then butlast acc else acc @ [x]) p []"

text \<open>The longest common prefix of two paths is dropped by \<open>strip_common\<close>.\<close>

fun strip_common :: "path \<Rightarrow> path \<Rightarrow> path \<times> path" where
  "strip_common (x # xs) (y # ys) = (if x = y then strip_common xs ys else (x # xs, y # ys))"
| "strip_common xs ys = (xs, ys)"

text \<open>\<^verbatim>\<open>filepath.Rel(basepath, targpath)\<close>. Both paths are absolute here, so the error
  of \<^verbatim>\<open>Rel\<close> (a relative path against an absolute one) does not arise.\<close>

definition filepath_Rel :: "path \<Rightarrow> path \<Rightarrow> error + path" where
  "filepath_Rel basepath targpath =
     (case strip_common basepath targpath of
        (b, t) \<Rightarrow> Inr (if b = [] \<and> t = [] then [''.''] else replicate (length b) ''..'' @ t))"

text \<open>A path given as a string, as \<^verbatim>\<open>os.Rename\<close> receives it from an environment
  variable: the non-empty pieces between slashes.\<close>

fun split_slash :: "string \<Rightarrow> string list" where
  "split_slash [] = [[]]"
| "split_slash (c # cs) =
     (if c = CHR ''/'' then [] # split_slash cs
      else (case split_slash cs of [] \<Rightarrow> [[c]] | l # ls \<Rightarrow> (c # l) # ls))"

definition parse_path :: "string \<Rightarrow> path" where
  "parse_path s = clean (filter (\<lambda>x. x \<noteq> []) (split_slash s))"

text \<open>\<^verbatim>\<open>bytes.Contains\<close>.\<close>

fun contains :: "string \<Rightarrow> string \<Rightarrow> bool" where
  "contains sub [] = (sub = [])"
| "contains sub (c # cs) = (prefix sub (c # cs) \<or> contains sub cs)"

text \<open>\<^verbatim>\<open>os.Environ\<close>: the environment as \<open>name=value\<close> strings.\<close>

definition os_Environ :: "(string \<times> string) list \<Rightarrow> string list" where
  "os_Environ env = map (\<lambda>(k, v). k @ ''='' @ v) env"

subsection \<open>More file operations\<close>

definition ENOENT :: error where
  "ENOENT = Error ''no such file or directory''"

definition os_IsNotExist :: "error \<Rightarrow> bool" where
  "os_IsNotExist e = (e = ENOENT)"

text \<open>\<^verbatim>\<open>ioutil.ReadDir\<close>: the names in a directory, sorted.\<close>

definition ioutil_ReadDir :: "collab \<Rightarrow> path \<Rightarrow> filesystem \<Rightarrow> error + string list" where
  "ioutil_ReadDir c dir fs =
     (if \<not> present fs dir then Inl ENOENT
      else if io_fault c OpReadDir dir \<or> lookup fs dir \<noteq> Some Dir then Inl (Error ''readdir'')
      else Inr (sort (remdups (map (\<lambda>(q, n). last q)
                  (filter (\<lambda>(q, n). length q = Suc (length dir) \<and> prefix dir q) fs)))))"

text \<open>\<^verbatim>\<open>ioutil.ReadFile\<close>.\<close>

definition ioutil_ReadFile :: "collab \<Rightarrow> path \<Rightarrow> filesystem \<Rightarrow> error + string" where
  "ioutil_ReadFile c p fs =
     (if io_fault c OpReadFile p then Inl (Error ''read'')
      else (case lookup fs p of Some (File s) \<Rightarrow> Inr s | _ \<Rightarrow> Inl (Error ''read'')))"

text \<open>\<^verbatim>\<open>os.Rename\<close>: the entries at and below the old path move to the new path. It
  fails when the new path names nothing (the empty string, or the root) and when the
  directory that is to hold the new path does not exist.\<close>

definition os_Rename :: "collab \<Rightarrow> path \<Rightarrow> path \<Rightarrow> filesystem \<Rightarrow> error + filesystem" where
  "os_Rename c old new fs =
     (if io_fault c OpRename old \<or> \<not> present fs old then Inl (Error ''rename'')
      else if new = [] \<or> (butlast new \<noteq> [] \<and> lookup fs (butlast new) \<noteq> Some Dir)
      then Inl ENOENT
      else Inr (fold (\<lambda>(q, n). put (new @ drop (length old) q) n) (below old fs) (without old fs)))"

text \<open>\<^verbatim>\<open>ioutil.TempDir("", prefix)\<close>: a new directory below \<open>/tmp\<close>.\<close>

definition ioutil_TempDir :: "collab \<Rightarrow> string \<Rightarrow> filesystem \<Rightarrow> error + path \<times> filesystem" where
  "ioutil_TempDir c pre fs =
     (if io_fault c OpTempDir [''tmp''] then Inl (Error ''tempdir'')
      else Inr ([''tmp'', temp_name c pre], put [''tmp'', temp_name c pre] Dir fs))"

text \<open>\<^verbatim>\<open>cp -al dir tempDir\<close> with an existing \<open>tempDir\<close>: the tree at \<open>dir\<close> appears,
  hard-linked, at \<open>tempDir/base(dir)\<close>.\<close>

definition cp_al :: "collab \<Rightarrow> path \<Rightarrow> path \<Rightarrow> filesystem \<Rightarrow> error + filesystem" where
  "cp_al c dir tempDir fs =
     (if io_fault c OpCp dir \<or> \<not> present fs dir then Inl (Error ''exit status 1'')
      else Inr (fold (\<lambda>(q, n). put (tempDir @ [base dir] @ drop (length dir) q) n) (below dir fs) fs))"

subsection \<open>InstallGems\<close>

text \<open>\<^verbatim>\<open>func (t *LinuxTempDir) CopyDirToTemp(dir string) (string, error)\<close>. The output
  of \<^verbatim>\<open>cp\<close> that it logs on failure is not modelled; the log entry stands for it.\<close>

definition CopyDirToTemp :: "collab \<Rightarrow> path \<Rightarrow> world \<Rightarrow> (error + path) \<times> world" where
  "CopyDirToTemp c dir w =
     (let w0 = called (CallCopyDirToTemp dir) w in
      case ioutil_TempDir c ''app'' (filesys w0) of
        Inl e \<Rightarrow> (Inl e, w0)
      | Inr (tempDir, fs1) \<Rightarrow>
          (case cp_al c dir tempDir fs1 of
             Inl e \<Rightarrow>
               (Inl (Error (''Could not copy build dir to temp: '' @ error_msg e)),
                Log (LogError ''cp failed'') (w0\<lparr>filesys := fs1\<rparr>))
           | Inr fs2 \<Rightarrow> (Inr (tempDir @ [base dir]), w0\<lparr>filesys := fs2\<rparr>)))"

text \<open>The two warnings of \<open>InstallGems\<close> about the application. Long messages are
  recorded by their first line.\<close>

definition warnBundleConfig :: "collab \<Rightarrow> world \<Rightarrow> world" where
  "warnBundleConfig c w =
     (case FileExists c (BuildDir c @ [''.bundle'', ''config'']) (filesys w) of
        Inr True \<Rightarrow>
          Log (Warning ''You have the `.bundle/config` file checked into your repository'') w
      | _ \<Rightarrow> w)"

definition warnWindowsGemfile :: "collab \<Rightarrow> world \<Rightarrow> world" where
  "warnWindowsGemfile c w =
     (case ioutil_ReadFile c (Gemfile c) (filesys w) of
        Inr body \<Rightarrow>
          if contains [CHR 0x0D, CHR 0x0A] body
          then Log (Warning ''Windows line endings detected in Gemfile. Your app may fail to stage. Please use UNIX line endings.'') w
          else w
      | Inl e \<Rightarrow> w)"

text \<open>\<^verbatim>\<open>s.Command.Run(cmd)\<close>: the process runs on the file system and returns its
  error or \<^verbatim>\<open>nil\<close>.\<close>

definition Run_cmd :: "collab \<Rightarrow> command \<Rightarrow> world \<Rightarrow> (error + unit) \<times> world" where
  "Run_cmd c cmd w =
     (case CommandRun c cmd (filesys w) of
        (r, fs1) \<Rightarrow> (r, (called (CallCommandRun cmd) w)\<lparr>filesys := fs1\<rparr>))"

definition regenerateBundlerBinStub :: "collab \<Rightarrow> path \<Rightarrow> world \<Rightarrow> (error + unit) \<times> world" where
  "regenerateBundlerBinStub c appDir w =
     (let w1 = Log (BeginStep ''Regenerating bundler binstubs...'') w;
          cmd = \<lparr>cmd_name = ''bundle'',
                 cmd_args = [''binstubs'', ''bundler'', ''--force'', ''--path'',
                             path_string (DepDir c @ [''binstubs''])],
                 cmd_dir = appDir, cmd_env = []\<rparr> in
      case Run_cmd c cmd w1 of
        (Inl e, w2) \<Rightarrow> (Inl e, w2)
      | (Inr u, w2) \<Rightarrow>
          (case CopyFile c (DepDir c @ [''binstubs'', ''bundle'']) (DepDir c @ [''bin'', ''bundle''])
                  (filesys w2) of
             (r, fs1) \<Rightarrow> (r, w2\<lparr>filesys := fs1\<rparr>)))"

text \<open>The loop "Copy binstubs to bin" over the names that \<^verbatim>\<open>ioutil.ReadDir\<close> returned.\<close>

fun copyBinstubs ::
  "collab \<Rightarrow> string list \<Rightarrow> filesystem \<Rightarrow> (error + unit) \<times> filesystem" where
  "copyBinstubs c [] fs = (Inr (), fs)"
| "copyBinstubs c (name # names) fs =
     (case FileExists c (DepDir c @ [''bin'', name]) fs of
        Inl e \<Rightarrow> (Inl (Error (''Checking existence: '' @ error_msg e)), fs)
      | Inr exists \<Rightarrow>
          if \<not> exists then
            (case CopyFile c (DepDir c @ [''binstubs'', name]) (DepDir c @ [''bin'', name]) fs of
               (Inl e, fs1) \<Rightarrow> (Inl (Error (''CopyFile: '' @ error_msg e)), fs1)
             | (Inr u, fs1) \<Rightarrow> copyBinstubs c names fs1)
          else copyBinstubs c names fs)"

text \<open>The statements of \<open>InstallGems\<close> from "Save .bundle/config to global config" to
  the final \<^verbatim>\<open>return os.RemoveAll(tempDir)\<close>.\<close>

definition saveAndRemove :: "collab \<Rightarrow> path \<Rightarrow> path \<Rightarrow> world \<Rightarrow> (error + unit) \<times> world" where
  "saveAndRemove c tempDir gemfileLock w =
     (let config = tempDir @ [''.bundle'', ''config''];
          target = os_Getenv (environ w) ''BUNDLE_CONFIG'';
          saved =
            (case FileExists c config (filesys w) of
               Inr True \<Rightarrow>
                 (let w1 = Log (Debug (''SaveBundleConfig; '' @ path_string config @ '' -> '' @ target)) w in
                  case os_Rename c config (parse_path target) (filesys w1) of
                    Inl e \<Rightarrow> (Inl e, w1)
                  | Inr fs1 \<Rightarrow> (Inr (), w1\<lparr>filesys := fs1\<rparr>))
             | _ \<Rightarrow> (Inr (), w)) in
      case saved of
        (Inl e, w2) \<Rightarrow> (Inl e, w2)
      | (Inr u, w2) \<Rightarrow>
          (let gemfileLockTarget = DepDir c @ [''Gemfile.lock''];
               locked =
                 (case FileExists c gemfileLock (filesys w2) of
                    Inr True \<Rightarrow>
                      (let w3 = Log (Debug (''SaveGemfileLock; '' @ path_string gemfileLock @ '' -> '' @
                                            path_string gemfileLockTarget)) w2 in
                       case CopyFile c gemfileLock gemfileLockTarget (filesys w3) of
                         (r, fs1) \<Rightarrow> (r, w3\<lparr>filesys := fs1\<rparr>))
                  | Inr False \<Rightarrow> (Inr (), w2)
                  | Inl e \<Rightarrow>
                      (Inr (), Log (Stdout (''Error checking if Gemfile.lock exists: '' @ error_msg e)) w2)) in
           case locked of
             (Inl e, w4) \<Rightarrow> (Inl e, w4)
           | (Inr u, w4) \<Rightarrow>
               (case os_RemoveAll c tempDir (filesys w4) of
                  Inl e \<Rightarrow> (Inl e, w4)
                | Inr fs1 \<Rightarrow> (Inr (), w4\<lparr>filesys := fs1\<rparr>))))"

text \<open>The statements of \<open>InstallGems\<close> from the first \<^verbatim>\<open>s.Command.Run\<close> on: bundle
  install, the binstub of bundler, bundle clean, the copy of the binstubs, and the rest.\<close>

definition bundleInstall ::
  "collab \<Rightarrow> path \<Rightarrow> path \<Rightarrow> string list \<Rightarrow> world \<Rightarrow> (error + unit) \<times> world" where
  "bundleInstall c tempDir gemfileLock args w =
     (let w1 = Log (Info (''Running: bundle '' @ join '' '' args))
                 (Log (BeginStep (''Installing dependencies using bundler '' @ GetBundlerVersion w)) w);
          env = os_Environ (environ w1) @
                  [''NOKOGIRI_USE_SYSTEM_LIBRARIES=true'',
                   ''FREETDS_DIR='' @ path_string (DepDir c @ [''freetds''])];
          install = \<lparr>cmd_name = ''bundle'', cmd_args = args, cmd_dir = tempDir, cmd_env = env\<rparr> in
      case Run_cmd c install w1 of
        (Inl e, w2) \<Rightarrow> (Inl e, w2)
      | (Inr u, w2) \<Rightarrow>
          (case regenerateBundlerBinStub c tempDir w2 of
             (Inl e, w3) \<Rightarrow> (Inl e, w3)
           | (Inr u, w3) \<Rightarrow>
               (let w4 = Log (Info ''Cleaning up the bundler cache.'') w3;
                    cleanup = \<lparr>cmd_name = ''bundle'', cmd_args = [''clean''], cmd_dir = tempDir,
                               cmd_env = env\<rparr> in
                case Run_cmd c cleanup w4 of
                  (Inl e, w5) \<Rightarrow> (Inl e, w5)
                | (Inr u, w5) \<Rightarrow>
                    (case ioutil_ReadDir c (DepDir c @ [''binstubs'']) (filesys w5) of
                       Inl e \<Rightarrow>
                         if \<not> os_IsNotExist e
                         then (Inl (Error (''Could not read dep/binstubs directory: '' @ error_msg e)), w5)
                         else saveAndRemove c tempDir gemfileLock w5
                     | Inr files \<Rightarrow>
                         (case copyBinstubs c files (filesys w5) of
                            (Inl e, fs1) \<Rightarrow> (Inl e, w5\<lparr>filesys := fs1\<rparr>)
                          | (Inr u', fs1) \<Rightarrow>
                              saveAndRemove c tempDir gemfileLock (w5\<lparr>filesys := fs1\<rparr>))))))"

definition windows_lock_warning :: log_entry where
  "windows_lock_warning = Warning ''Removing `Gemfile.lock` because it was generated on Windows.''"

definition InstallGems :: "collab \<Rightarrow> world \<Rightarrow> (error + unit) \<times> world" where
  "InstallGems c w =
     (if \<not> appHasGemfile w then (Inr (), w)
      else
        (let w1 = warnWindowsGemfile c (warnBundleConfig c w) in
         case CopyDirToTemp c (BuildDir c) w1 of
           (Inl e, w2) \<Rightarrow> (Inr (), w2)
         | (Inr tempDir, w2) \<Rightarrow>
             (case filepath_Rel (BuildDir c) (Gemfile c) of
                Inl e \<Rightarrow> (Inr (), w2)
              | Inr rel \<Rightarrow>
                  (let gemfileLock = path_suffix (clean (tempDir @ rel)) ''.lock'' in
                   case HasWindowsGemfileLock c of
                     Inl e \<Rightarrow> (Inl e, w2)
                   | Inr hasFile \<Rightarrow>
                       (let removed =
                              (if hasFile then
                                 (let w3 = Log windows_lock_warning
                                             (Log (Debug (''Remove '' @ path_string gemfileLock)) w2) in
                                  case os_Remove c gemfileLock (filesys w3) of
                                    Inl e \<Rightarrow> (Inl (Error (''Remove Gemfile.lock: '' @ error_msg e)), w3)
                                  | Inr fs1 \<Rightarrow> (Inr (), w3\<lparr>filesys := fs1\<rparr>))
                               else (Inr (), w2)) in
                        case removed of
                          (Inl e, w4) \<Rightarrow> (Inl e, w4)
                        | (Inr u, w4) \<Rightarrow>
                            (case FileExists c (tempDir @ [''.bundle'', ''config'']) (filesys w4) of
                               Inl e \<Rightarrow> (Inl e, w4)
                             | Inr exists \<Rightarrow>
                                 (let fs5 =
                                        (if exists then
                                           (let fs' = (case os_Remove c (tempDir @ [''.bundle'', ''config''])
                                                              (filesys w4) of
                                                         Inl e \<Rightarrow> filesys w4 | Inr fs1 \<Rightarrow> fs1) in
                                            snd (CopyFile c (BuildDir c @ [''.bundle'', ''config''])
                                                   (tempDir @ [''.bundle'', ''config'']) fs'))
                                         else filesys w4);
                                      w5 = w4\<lparr>filesys := fs5\<rparr>;
                                      args = [''install'', ''--without'',
                                              os_Getenv (environ w5) ''BUNDLE_WITHOUT'', ''--jobs=4'',
                                              ''--retry=4'', ''--path'',
                                              path_string (DepDir c @ [''vendor_bundle'']),
                                              ''--binstubs'', path_string (DepDir c @ [''binstubs''])] in
                                  case FileExists c gemfileLock (filesys w5) of
                                    Inl e \<Rightarrow> (Inl e, w5)
                                  | Inr locked \<Rightarrow>
                                      bundleInstall c tempDir gemfileLock
                                        (if locked then args @ [''--deployment''] else args) w5)))))))"

subsection \<open>CalcChecksum\<close>

text \<open>
  \<^verbatim>\<open>filepath.Walk\<close> calls its function for the root and then, for every directory, for
  the names in it in lexical order, each followed by its own subtree. When a directory
  cannot be read, \<^verbatim>\<open>Walk\<close> calls the function for the directory with the error and
  leaves the directory's contents out; the function of \<open>CalcChecksum\<close> never looks at
  that error and returns \<^verbatim>\<open>nil\<close> for a directory, so the walk goes on without them.
  A path is \<open>walked\<close> when it is at or below the root and no directory on the way from
  the root down to it is unreadable. On the file system as a list of paths the walk
  visits the walked entries in the lexicographic order of their component lists.
\<close>

definition walked :: "collab \<Rightarrow> path \<Rightarrow> path \<Rightarrow> bool" where
  "walked c root q =
     (prefix root q \<and>
      \<not> list_ex (\<lambda>d. d \<noteq> q \<and> prefix root d \<and> io_fault c OpReadDir d) (prefixes q))"

definition walk_entries :: "collab \<Rightarrow> path \<Rightarrow> filesystem \<Rightarrow> filesystem" where
  "walk_entries c root fs = sort_key fst (filter (\<lambda>(q, n). walked c root q) fs)"

text \<open>
  The function that \<open>CalcChecksum\<close> passes to \<^verbatim>\<open>filepath.Walk\<close>, run over the entries
  in the order of the walk. \<open>h\<close> holds the bytes written to the hash so far. For an
  entry that cannot be examined (\<^verbatim>\<open>Lstat\<close> fails) \<^verbatim>\<open>Walk\<close> passes a nil
  \<^verbatim>\<open>FileInfo\<close>, and \<^verbatim>\<open>info.Mode()\<close> panics. A regular file whose relative path
  starts with \<open>.cloudfoundry/\<close> is skipped; of any other regular file the relative
  path and then the bytes are written; a file that cannot be opened ends the walk with
  the error.
\<close>

fun hash_walk :: "collab \<Rightarrow> path \<Rightarrow> filesystem \<Rightarrow> string \<Rightarrow> error + string" where
  "hash_walk c basepath [] h = Inr h"
| "hash_walk c basepath ((p, n) # entries) h =
     (if io_fault c OpStat p then Inl (Error ''panic: nil pointer dereference'')
      else
        (case n of
           File content \<Rightarrow>
             (let rel = filepath_Rel basepath p;
                  relpath = (case rel of Inl e \<Rightarrow> [] | Inr r \<Rightarrow> join ''/'' r) in
              if prefix ''.cloudfoundry/'' relpath then hash_walk c basepath entries h
              else
                (case rel of
                   Inl e \<Rightarrow> Inl e
                 | Inr r \<Rightarrow>
                     if io_fault c OpReadFile p then Inl (Error ''open'')
                     else hash_walk c basepath entries (h @ relpath @ content)))
         | _ \<Rightarrow> hash_walk c basepath entries h))"

text \<open>The bytes that \<open>CalcChecksum\<close> writes to the hash. \<^verbatim>\<open>Walk\<close> hands a missing
  root to the function with a nil \<^verbatim>\<open>FileInfo\<close> too.\<close>

definition checksum_input :: "collab \<Rightarrow> world \<Rightarrow> error + string" where
  "checksum_input c w =
     (if \<not> present (filesys w) (BuildDir c) then Inl (Error ''panic: nil pointer dereference'')
      else hash_walk c (BuildDir c) (walk_entries c (BuildDir c) (filesys w)) [])"

text \<open>\<^verbatim>\<open>fmt.Sprintf("%x", sum)\<close> for the 16 bytes of an MD5 sum, read as one number: 32
  hexadecimal digits, the most significant first.\<close>

definition hexdigit :: "nat \<Rightarrow> char" where
  "hexdigit d = ''0123456789abcdef'' ! d"

fun hex_nat :: "nat \<Rightarrow> nat \<Rightarrow> string" where
  "hex_nat 0 k = []"
| "hex_nat (Suc n) k = hex_nat n (k div 16) @ [hexdigit (k mod 16)]"

definition hex128 :: "128 word \<Rightarrow> string" where
  "hex128 x = hex_nat 32 (unat x)"

text \<open>
  \<^verbatim>\<open>func (s *Supplier) CalcChecksum() (string, error)\<close>. The hash function of
  \<^verbatim>\<open>crypto/md5\<close> is the parameter \<open>md5\<close>: it maps the bytes written to the 128 bits
  of the sum.
\<close>

definition CalcChecksum :: "(string \<Rightarrow> 128 word) \<Rightarrow> collab \<Rightarrow> world \<Rightarrow> error + string" where
  "CalcChecksum md5 c w =
     (case checksum_input c w of Inl e \<Rightarrow> Inl e | Inr h \<Rightarrow> Inr (hex128 (md5 h)))"

section \<open>A concrete run\<close>

text \<open>
  Collaborators and a starting state on which the functions above are evaluated: an
  application in \<open>/home/vcap/app\<close> with a Gemfile, dependencies in
  \<open>/home/vcap/deps/0\<close>, a catalog with bundler 1.17.3 and 2.0.1 and the default ruby
  2.6.3, archives that hold one gem directory and its gemspec, and no failing operation.
\<close>

definition demo_archive :: "dependency \<Rightarrow> error + filesystem" where
  "demo_archive dep =
     (if dep_name dep = ''bundler'' then
        Inr [([''gems''], Dir),
             ([''gems'', ''bundler-'' @ dep_version dep], Dir),
             ([''gems'', ''bundler-'' @ dep_version dep, ''exe''], File ''bundle''),
             ([''specifications''], Dir),
             ([''specifications'', ''bundler-'' @ dep_version dep @ ''.gemspec''], File ''spec'')]
      else Inl (Error ''dependency not found''))"

definition demo_find :: "string \<Rightarrow> string list \<Rightarrow> error + string" where
  "demo_find constraint versions =
     (case filter (\<lambda>v. take 1 v = take 1 constraint) versions of
        [] \<Rightarrow> Inl (Error ''no match found'')
      | v # vs \<Rightarrow> Inr v)"

definition demo_collab :: collab where
  "demo_collab =
     \<lparr>BuildDir = [''home'', ''vcap'', ''app''],
      DepDir = [''deps'', ''0''],
      Gemfile = [''home'', ''vcap'', ''app'', ''Gemfile''],
      AllDependencyVersions = (\<lambda>name. if name = ''bundler'' then [''1.17.3'', ''2.0.1''] else []),
      DefaultVersion =
        (\<lambda>name. if name = ''ruby'' then Inr \<lparr>dep_name = ''ruby'', dep_version = ''2.6.3''\<rparr>
                 else Inl (Error ''no default version'')),
      FindMatchingVersion = demo_find,
      archive = demo_archive,
      LinkDirectoryInDepDir = (\<lambda>destDir depSubDir fs0. Inr fs0),
      CheckBundler2Compatibility = Inr False,
      Engine = Inr ''ruby'',
      Version = Inr [],
      JrubyVersion = Inl (Error ''no jruby''),
      HasGemVersion = (\<lambda>gem constraints. Inl (Error ''bundle failed'')),
      HasWindowsGemfileLock = Inr False,
      CommandOutput = (\<lambda>dir program args. Inl (Error ''executable file not found'')),
      CommandRun = (\<lambda>cmd fs0. (Inl (Error ''exit status 1''), fs0)),
      temp_name = (\<lambda>prefix. prefix @ ''123''),
      io_fault = (\<lambda>op p. False)\<rparr>"

definition demo_world :: world where
  "demo_world =
     \<lparr>filesys =
        [([''home''], Dir), ([''home'', ''vcap''], Dir), ([''home'', ''vcap'', ''app''], Dir),
         ([''home'', ''vcap'', ''app'', ''Gemfile''], File ''gem rails''),
         ([''deps''], Dir), ([''deps'', ''0''], Dir)],
      environ = [],
      env_files = [],
      logged = [],
      calls = [],
      bundlerVersion = [],
      cachedNeedsNode = False,
      needsNode = False,
      appHasGemfile = True,
      appHasGemfileLock = False\<rparr>"

text \<open>The same surroundings, except that removing the copied bundler 2 gem directory
  fails.\<close>

definition faulty_collab :: collab where
  "faulty_collab =
     demo_collab\<lparr>io_fault :=
       (\<lambda>op p. op = OpRemoveAll \<and> p = [''deps'', ''0'', ''bundler'', ''gems'', ''bundler-2.0.1''])\<rparr>"

text \<open>The same surroundings, except that removing the directory \<open>bundler2\<close>, into which
  bundler 2 is unpacked, fails.\<close>

definition unpack_fault_collab :: collab where
  "unpack_fault_collab =
     demo_collab\<lparr>io_fault := (\<lambda>op p. op = OpRemoveAll \<and> p = [''deps'', ''0'', ''bundler2''])\<rparr>"

text \<open>Surroundings in which \<^verbatim>\<open>cp -al\<close> of the build directory fails, surroundings in
  which every external command succeeds (and leaves the binstub of bundler), and a
  starting state without a Gemfile.\<close>

definition cp_fault_collab :: collab where
  "cp_fault_collab =
     demo_collab\<lparr>io_fault := (\<lambda>op p. op = OpCp \<and> p = [''home'', ''vcap'', ''app''])\<rparr>"

definition ok_collab :: collab where
  "ok_collab =
     demo_collab\<lparr>CommandRun :=
       (\<lambda>cmd fs0. (Inr (), put [''deps'', ''0'', ''binstubs'', ''bundle''] (File ''#!ruby'')
                              (put [''deps'', ''0'', ''binstubs''] Dir fs0)))\<rparr>"

definition bare_world :: world where
  "bare_world =
     demo_world\<lparr>filesys :=
       [([''home''], Dir), ([''home'', ''vcap''], Dir), ([''home'', ''vcap'', ''app''], Dir),
        ([''deps''], Dir), ([''deps'', ''0''], Dir)]\<rparr>"

text \<open>A build directory that holds the single file \<open>a\<close> with the given bytes, one with
  bookkeeping files below \<open>.cloudfoundry\<close>, and a toy hash function.\<close>

definition one_file :: "string \<Rightarrow> world" where
  "one_file s =
     demo_world\<lparr>filesys := [([''home'', ''vcap'', ''app''], Dir),
                             ([''home'', ''vcap'', ''app'', ''a''], File s)]\<rparr>"





subsection \<open>Notions used in the statements about the environment\<close>

text \<open>The state after the body of the loop of \<open>writeEnvFiles\<close> has set one variable and
  written its file.\<close>

definition applied :: "string \<Rightarrow> string \<Rightarrow> world \<Rightarrow> world" where
  "applied k v w =
     (if valid_env k v then w\<lparr>environ := put k v (environ w), env_files := put k v (env_files w)\<rparr>
      else w\<lparr>env_files := put k v (env_files w)\<rparr>)"

text \<open>An entry is settled in a state when running the loop body for it (without
  overwriting) succeeds and changes nothing.\<close>

definition settled :: "collab \<Rightarrow> string \<Rightarrow> string \<Rightarrow> world \<Rightarrow> bool" where
  "settled c k v w =
     (os_Getenv (environ w) k \<noteq> [] \<or>
      ((\<not> valid_env k v \<or> lookup (environ w) k = Some v) \<and>
       \<not> io_fault c OpWriteEnvFile [k] \<and> lookup (env_files w) k = Some v))"

text \<open>A state with a variable that is set to the empty string, and surroundings in which
  the environment file of \<open>RAILS_ENV\<close> cannot be written.\<close>

definition empty_var_world :: world where
  "empty_var_world = demo_world\<lparr>environ := [(''RACK_ENV'', []), (''RAILS_GROUPS'', ''all'')]\<rparr>"

definition env_fault_collab :: collab where
  "env_fault_collab = demo_collab\<lparr>io_fault := (\<lambda>op p. op = OpWriteEnvFile \<and> p = [''RAILS_ENV''])\<rparr>"

subsection \<open>Notions used in the statements about the fingerprint\<close>

text \<open>The relative path that \<open>CalcChecksum\<close> computes for an entry, whether the entry is
  written to the hash, and the bytes written for it.\<close>

definition relpath :: "path \<Rightarrow> path \<Rightarrow> string" where
  "relpath basepath p = (case filepath_Rel basepath p of Inl e \<Rightarrow> [] | Inr r \<Rightarrow> join ''/'' r)"










section \<open>Properties\<close>

subsection \<open>The file system\<close>

lemma lookup_put: "lookup (put p n fs) q = (if q = p then Some n else lookup fs q)"
  unfolding lookup_def by (induction fs) auto

lemma put_same: "lookup fs p = Some n \<Longrightarrow> put p n fs = fs"
  unfolding lookup_def by (induction fs) (auto split: if_splits)

lemma present_put: "present (put p n fs) q \<longleftrightarrow> q = p \<or> present fs q"
  by (simp add: present_def lookup_put)

lemma lookup_without: "lookup (without p fs) q = (if prefix p q then None else lookup fs q)"
  unfolding lookup_def without_def by (induction fs) auto

lemma present_without: "present (without p fs) q \<longleftrightarrow> \<not> prefix p q \<and> present fs q"
  by (simp add: present_def lookup_without)

lemma present_fold_put:
  "present fs q \<Longrightarrow> present (fold (\<lambda>x fs'. if skip x fs' then fs' else put (at x) (nd x) fs') xs fs) q"
  by (induction xs arbitrary: fs) (auto simp: present_put)

lemma present_MkdirAll:
  assumes "os_MkdirAll c p fs = Inr fs'" and "present fs q"
  shows "present fs' q"
proof -
  from assms(1) have "fs' = fold (\<lambda>q fs'. if q = [] \<or> present fs' q then fs' else put q Dir fs') (prefixes p) fs"
    by (auto simp: os_MkdirAll_def split: if_splits)
  with present_fold_put [OF assms(2), of "\<lambda>q fs'. q = [] \<or> present fs' q" "\<lambda>q. q" "\<lambda>q. Dir" "prefixes p"]
  show ?thesis by simp
qed

lemma present_CopyDirectory:
  assumes "CopyDirectory c src dst fs = Inr fs'" and "present fs q"
  shows "present fs' q"
proof -
  from assms(1) have "fs' = fold (\<lambda>(q, n) fs'. if q = src then fs' else put (dst @ drop (length src) q) n fs') (below src fs) fs"
    by (auto simp: CopyDirectory_def split: if_splits)
  with present_fold_put [OF assms(2), of "\<lambda>x fs'. fst x = src" "\<lambda>x. dst @ drop (length src) (fst x)" snd  "below src fs"]
  show ?thesis by (simp add: case_prod_unfold)
qed

lemma present_writeToFile:
  assumes "writeToFile c source dst fs = (r, fs')" and "present fs q"
  shows "present fs' q"
  using assms
  by (auto simp: writeToFile_def present_put split: if_splits option.splits sum.splits
           dest: present_MkdirAll)

lemma present_CopyFile:
  assumes "CopyFile c src dst fs = (r, fs')" and "present fs q"
  shows "present fs' q"
  using assms
  by (auto simp: CopyFile_def split: if_splits option.splits node.splits
           dest: present_writeToFile)

lemma present_copyBundlerTwo:
  assumes "copyBundlerTwo c v d fs = (r, fs')" and "present fs q"
  shows "present fs' q"
  using assms
  by (auto simp: copyBundlerTwo_def Let_def split: sum.splits
           dest: present_MkdirAll present_CopyDirectory present_CopyFile)

lemma present_deferred_RemoveAll:
  "present fs q \<Longrightarrow> \<not> prefix p q \<Longrightarrow> present (deferred_RemoveAll c p fs) q"
  by (simp add: deferred_RemoveAll_def os_RemoveAll_def present_without)

lemma present_InstallDependency:
  assumes "InstallDependency c dep dir w = (Inr u, w')" and "present (filesys w) q"
  shows "present (filesys w') q"
proof -
  have *: "present fs q \<Longrightarrow> present (fold (\<lambda>(rel, n). put (dir @ rel) n) es fs) q" for es fs
    by (induction es arbitrary: fs) (auto simp: present_put)
  from assms show ?thesis
    by (auto simp: InstallDependency_def Let_def called_def split: sum.splits
             dest!: present_MkdirAll [where q = q] intro!: *)
qed

lemma present_installBundlerTwo:
  assumes "installBundlerTwo c w = (Inr v, w')" and "present (filesys w) q"
    and "\<not> prefix (DepDir c @ [''bundler2'']) q"
  shows "present (filesys w') q"
  using assms
  by (auto simp: installBundlerTwo_def Let_def split: sum.splits prod.splits
           dest!: present_InstallDependency [where q = q] present_copyBundlerTwo [where q = q]
           intro!: present_deferred_RemoveAll)

text \<open>When \<open>installBundlerTwo\<close> has returned a version, the deferred removal has run: unless
  it failed, nothing is left of the directory into which bundler 2 was unpacked.\<close>

lemma installBundlerTwo_unpack_removed:
  assumes "installBundlerTwo c w = (Inr v, w')"
    and "\<not> io_fault c OpRemoveAll (DepDir c @ [''bundler2''])"
    and "prefix (DepDir c @ [''bundler2'']) q"
  shows "\<not> present (filesys w') q"
  using assms
  by (auto simp: installBundlerTwo_def Let_def deferred_RemoveAll_def os_RemoveAll_def
                 present_without
           split: sum.splits prod.splits)

lemma present_uninstallBundlerTwo:
  "present (filesys (snd (uninstallBundlerTwo c w))) q \<Longrightarrow> present (filesys w) q"
  by (auto simp: uninstallBundlerTwo_def Let_def os_RemoveAll_def present_without
           split: sum.splits if_splits)


subsection \<open>InstallBundler\<close>

lemma installBundlerOne_appHasGemfile:
  "installBundlerOne c w = (r, w1) \<Longrightarrow> appHasGemfile w1 = appHasGemfile w"
  by (auto simp: installBundlerOne_def InstallDependency_def Let_def called_def
           split: sum.splits prod.splits)

lemma installBundlerOne_version:
  "installBundlerOne c w = (Inr v1, w1) \<Longrightarrow>
     FindMatchingVersion c ''1.X.X'' (AllDependencyVersions c ''bundler'') = Inr v1"
  by (auto simp: installBundlerOne_def split: sum.splits prod.splits)

lemma installBundlerTwo_version:
  "installBundlerTwo c w = (Inr v2, w3) \<Longrightarrow>
     FindMatchingVersion c ''2.X.X'' (AllDependencyVersions c ''bundler'') = Inr v2"
  by (auto simp: installBundlerTwo_def Let_def split: sum.splits prod.splits)

lemma InstallBundler_after_installs:
  assumes "appHasGemfile w"
    and "installBundlerOne c w = (Inr v1, w1)"
    and "installBundlerTwo c (SetBundlerVersion v1 w1) = (Inr v2, w3)"
  shows "InstallBundler c w =
     (case CheckBundler2Compatibility c of
        Inl e \<Rightarrow> (Inl e, called CallCheckBundler2Compatibility (SetBundlerVersion v2 w3))
      | Inr ok \<Rightarrow>
          if ok then (Inr (), called CallCheckBundler2Compatibility (SetBundlerVersion v2 w3))
          else uninstallBundlerTwo c
                 (SetBundlerVersion v1
                    (Log bundler2_warning
                       (called CallCheckBundler2Compatibility (SetBundlerVersion v2 w3)))))"
proof -
  from assms(1,2) have "appHasGemfile (SetBundlerVersion v1 w1)"
    by (simp add: SetBundlerVersion_def installBundlerOne_appHasGemfile)
  with assms(2,3) show ?thesis
    by (simp add: InstallBundler_def Let_def)
qed

lemma uninstallBundlerTwo_result:
  assumes "FindMatchingVersion c ''2.X.X'' (AllDependencyVersions c ''bundler'') = Inr v2"
  shows "fst (uninstallBundlerTwo c w) =
           (if io_fault c OpRemoveAll (DepDir c @ [''bundler'', ''gems'', ''bundler-'' @ v2]) \<or>
               io_fault c OpRemoveAll
                 (DepDir c @ [''bundler'', ''specifications'', ''bundler-'' @ v2 @ ''.gemspec''])
            then Inl (Error ''RemoveAll'') else Inr ())"
    and "bundlerVersion (snd (uninstallBundlerTwo c w)) = bundlerVersion w"
    and "logged (snd (uninstallBundlerTwo c w)) = logged w"
    and "fst (uninstallBundlerTwo c w) = Inr () \<Longrightarrow>
           filesys (snd (uninstallBundlerTwo c w)) =
             without (DepDir c @ [''bundler'', ''specifications'', ''bundler-'' @ v2 @ ''.gemspec''])
               (without (DepDir c @ [''bundler'', ''gems'', ''bundler-'' @ v2]) (filesys w))"
  using assms by (auto simp: uninstallBundlerTwo_def Let_def os_RemoveAll_def split: sum.splits)

text \<open>
  C4, as the code has it. When both bundlers were installed: if
  \<open>CheckBundler2Compatibility\<close> returns an error, \<open>InstallBundler\<close> returns that
  error. If it returns a negative result without error, \<open>InstallBundler\<close> logs the
  warning, sets the active version back to the primary one and returns what the rollback
  returns: success when both deletions succeed, otherwise the deletion's error. The
  negative result itself is never turned into an error.
\<close>

theorem C4_InstallBundler_compatibility_result:
  assumes "appHasGemfile w"
    and "installBundlerOne c w = (Inr v1, w1)"
    and "installBundlerTwo c (SetBundlerVersion v1 w1) = (Inr v2, w3)"
  shows "(\<forall>e. CheckBundler2Compatibility c = Inl e \<longrightarrow> fst (InstallBundler c w) = Inl e) \<and>
         (CheckBundler2Compatibility c = Inr False \<longrightarrow>
            bundler2_warning \<in> set (logged (snd (InstallBundler c w))) \<and>
            GetBundlerVersion (snd (InstallBundler c w)) = v1 \<and>
            fst (InstallBundler c w) =
              (if io_fault c OpRemoveAll (DepDir c @ [''bundler'', ''gems'', ''bundler-'' @ v2]) \<or>
                  io_fault c OpRemoveAll
                    (DepDir c @ [''bundler'', ''specifications'', ''bundler-'' @ v2 @ ''.gemspec''])
               then Inl (Error ''RemoveAll'') else Inr ()))"
proof -
  note two = installBundlerTwo_version [OF assms(3)]
  note IB = InstallBundler_after_installs [OF assms]
  show ?thesis
    by (simp add: IB uninstallBundlerTwo_result(1-3) [OF two] GetBundlerVersion_def
          SetBundlerVersion_def Log_def called_def)
qed

theorem C4_witness:
  "fst (InstallBundler (demo_collab\<lparr>CheckBundler2Compatibility := Inl (Error ''cannot read Gemfile.lock'')\<rparr>)
          demo_world) = Inl (Error ''cannot read Gemfile.lock'') \<and>
   bundler2_warning \<in> set (logged (snd (InstallBundler demo_collab demo_world))) \<and>
   GetBundlerVersion (snd (InstallBundler demo_collab demo_world)) = ''1.17.3'' \<and>
   fst (InstallBundler demo_collab demo_world) = Inr ()"
proof -
  let ?c = "demo_collab\<lparr>CheckBundler2Compatibility := Inl (Error ''cannot read Gemfile.lock'')\<rparr>"
  have g: "appHasGemfile demo_world"
    by (simp add: demo_world_def)
  have "fst (installBundlerOne ?c demo_world) = Inr ''1.17.3''"
    by code_simp
  then have one: "installBundlerOne ?c demo_world = (Inr ''1.17.3'', snd (installBundlerOne ?c demo_world))"
    by (metis prod.collapse)
  have "fst (installBundlerTwo ?c (SetBundlerVersion ''1.17.3'' (snd (installBundlerOne ?c demo_world))))
          = Inr ''2.0.1''"
    by code_simp
  then have two: "installBundlerTwo ?c (SetBundlerVersion ''1.17.3'' (snd (installBundlerOne ?c demo_world)))
          = (Inr ''2.0.1'', snd (installBundlerTwo ?c (SetBundlerVersion ''1.17.3'' (snd (installBundlerOne ?c demo_world)))))"
    by (metis prod.collapse)
  have "fst (installBundlerOne demo_collab demo_world) = Inr ''1.17.3''"
    by code_simp
  then have one': "installBundlerOne demo_collab demo_world = (Inr ''1.17.3'', snd (installBundlerOne demo_collab demo_world))"
    by (metis prod.collapse)
  have "fst (installBundlerTwo demo_collab (SetBundlerVersion ''1.17.3'' (snd (installBundlerOne demo_collab demo_world))))
          = Inr ''2.0.1''"
    by code_simp
  then have two': "installBundlerTwo demo_collab (SetBundlerVersion ''1.17.3'' (snd (installBundlerOne demo_collab demo_world)))
          = (Inr ''2.0.1'', snd (installBundlerTwo demo_collab (SetBundlerVersion ''1.17.3'' (snd (installBundlerOne demo_collab demo_world)))))"
    by (metis prod.collapse)
  have e: "CheckBundler2Compatibility ?c = Inl (Error ''cannot read Gemfile.lock'')"
    by simp
  have f: "CheckBundler2Compatibility demo_collab = Inr False"
    by (simp add: demo_collab_def)
  have nofault: "io_fault demo_collab op p = False" for op p
    by (simp add: demo_collab_def)
  from C4_InstallBundler_compatibility_result [OF g one two] e
       C4_InstallBundler_compatibility_result [OF g one' two'] f nofault
  show ?thesis by simp
qed

text \<open>
  C4 as stated fails: with a negative compatibility result and a failing deletion of
  the bundler 2 gem directory, \<open>InstallBundler\<close> returns an error.
\<close>

theorem C4_counterexample:
  "CheckBundler2Compatibility faulty_collab = Inr False \<and>
   fst (InstallBundler faulty_collab demo_world) = Inl (Error ''RemoveAll'')"
  by code_simp

text \<open>
  C3, as the code has it. For a run of \<open>InstallBundler\<close> with a Gemfile in which both
  bundlers were installed (\<open>v1\<close> matches 1.X.X, \<open>v2\<close> matches 2.X.X): after an
  incompatible result the active version is \<open>v1\<close> and, when \<open>InstallBundler\<close> returns
  success, nothing is present at or below the gem directory and the gemspec of \<open>v2\<close>;
  after a compatible result \<open>InstallBundler\<close> returns success, the active version is
  \<open>v2\<close> and every path that was present when the primary install returned, except
  the paths in the directory \<open>bundler2\<close> into which bundler 2 is unpacked, is still
  present. Whatever the result of the test, nothing is present at or below \<open>bundler2\<close>
  unless its deferred removal, whose error is dropped, failed.
\<close>

theorem C3_InstallBundler_negotiation:
  assumes "appHasGemfile w"
    and "installBundlerOne c w = (Inr v1, w1)"
    and "installBundlerTwo c (SetBundlerVersion v1 w1) = (Inr v2, w3)"
    and "InstallBundler c w = (r, w')"
  shows "FindMatchingVersion c ''1.X.X'' (AllDependencyVersions c ''bundler'') = Inr v1 \<and>
         FindMatchingVersion c ''2.X.X'' (AllDependencyVersions c ''bundler'') = Inr v2 \<and>
         (CheckBundler2Compatibility c = Inr False \<longrightarrow>
            GetBundlerVersion w' = v1 \<and>
            (r = Inr () \<longrightarrow>
               (\<forall>p. prefix (DepDir c @ [''bundler'', ''gems'', ''bundler-'' @ v2]) p \<or>
                    prefix (DepDir c @ [''bundler'', ''specifications'', ''bundler-'' @ v2 @ ''.gemspec'']) p
                    \<longrightarrow> \<not> present (filesys w') p))) \<and>
         (CheckBundler2Compatibility c = Inr True \<longrightarrow>
            r = Inr () \<and> GetBundlerVersion w' = v2 \<and>
            (\<forall>p. present (filesys w1) p \<and> \<not> prefix (DepDir c @ [''bundler2'']) p
                 \<longrightarrow> present (filesys w') p)) \<and>
         (\<not> io_fault c OpRemoveAll (DepDir c @ [''bundler2'']) \<longrightarrow>
            (\<forall>p. prefix (DepDir c @ [''bundler2'']) p \<longrightarrow> \<not> present (filesys w') p))"
proof -
  note one = installBundlerOne_version [OF assms(2)]
  note two = installBundlerTwo_version [OF assms(3)]
  note IB = InstallBundler_after_installs [OF assms(1-3)]
  have incompat: "GetBundlerVersion w' = v1 \<and>
            (r = Inr () \<longrightarrow>
               (\<forall>p. prefix (DepDir c @ [''bundler'', ''gems'', ''bundler-'' @ v2]) p \<or>
                    prefix (DepDir c @ [''bundler'', ''specifications'', ''bundler-'' @ v2 @ ''.gemspec'']) p
                    \<longrightarrow> \<not> present (filesys w') p))"
    if "CheckBundler2Compatibility c = Inr False"
  proof -
    let ?w4 = "SetBundlerVersion v1
                    (Log bundler2_warning
                       (called CallCheckBundler2Compatibility (SetBundlerVersion v2 w3)))"
    from IB that assms(4) have eq: "uninstallBundlerTwo c ?w4 = (r, w')" by simp
    then have r: "fst (uninstallBundlerTwo c ?w4) = r" and w': "snd (uninstallBundlerTwo c ?w4) = w'"
      by simp_all
    have "GetBundlerVersion w' = v1"
      using uninstallBundlerTwo_result(2) [OF two, of ?w4] w'
      by (simp add: GetBundlerVersion_def SetBundlerVersion_def)
    moreover have "\<not> present (filesys w') p"
      if "r = Inr ()" and "prefix (DepDir c @ [''bundler'', ''gems'', ''bundler-'' @ v2]) p \<or>
                    prefix (DepDir c @ [''bundler'', ''specifications'', ''bundler-'' @ v2 @ ''.gemspec'']) p" for p
      using uninstallBundlerTwo_result(4) [OF two, of ?w4] r w' that
      by (auto simp: present_without)
    ultimately show ?thesis by blast
  qed
  have compat: "r = Inr () \<and> GetBundlerVersion w' = v2 \<and>
            (\<forall>p. present (filesys w1) p \<and> \<not> prefix (DepDir c @ [''bundler2'']) p
                 \<longrightarrow> present (filesys w') p)"
    if "CheckBundler2Compatibility c = Inr True"
  proof -
    from IB that assms(4)
    have r: "r = Inr ()" and w': "w' = called CallCheckBundler2Compatibility (SetBundlerVersion v2 w3)"
      by simp_all
    have "present (filesys w') p" if "present (filesys w1) p" and "\<not> prefix (DepDir c @ [''bundler2'']) p" for p
      using present_installBundlerTwo [OF assms(3), of p] that
      by (simp add: w' called_def SetBundlerVersion_def)
    with r w' show ?thesis
      by (simp add: GetBundlerVersion_def called_def SetBundlerVersion_def)
  qed
  have unpack: "\<not> present (filesys w') p"
    if nf: "\<not> io_fault c OpRemoveAll (DepDir c @ [''bundler2''])"
      and p: "prefix (DepDir c @ [''bundler2'']) p" for p
  proof
    assume pres: "present (filesys w') p"
    let ?w3' = "called CallCheckBundler2Compatibility (SetBundlerVersion v2 w3)"
    from installBundlerTwo_unpack_removed [OF assms(3) nf p]
    have gone: "\<not> present (filesys w3) p" .
    have "present (filesys w3) p"
    proof (cases "CheckBundler2Compatibility c")
      case (Inl e)
      with IB assms(4) have "w' = ?w3'" by simp
      with pres show ?thesis
        by (simp add: called_def SetBundlerVersion_def)
    next
      case (Inr ok)
      show ?thesis
      proof (cases ok)
        case True
        with Inr IB assms(4) have "w' = ?w3'" by simp
        with pres show ?thesis
          by (simp add: called_def SetBundlerVersion_def)
      next
        case False
        with Inr IB assms(4)
        have "uninstallBundlerTwo c (SetBundlerVersion v1 (Log bundler2_warning ?w3')) = (r, w')"
          by simp
        then have "w' = snd (uninstallBundlerTwo c (SetBundlerVersion v1 (Log bundler2_warning ?w3')))"
          by simp
        with pres present_uninstallBundlerTwo
        have "present (filesys (SetBundlerVersion v1 (Log bundler2_warning ?w3'))) p"
          by blast
        then show ?thesis
          by (simp add: called_def SetBundlerVersion_def Log_def)
      qed
    qed
    with gone show False ..
  qed
  from one two incompat compat unpack show ?thesis by blast
qed

theorem C3_witness:
  "FindMatchingVersion demo_collab ''1.X.X'' (AllDependencyVersions demo_collab ''bundler'') = Inr ''1.17.3'' \<and>
   FindMatchingVersion demo_collab ''2.X.X'' (AllDependencyVersions demo_collab ''bundler'') = Inr ''2.0.1'' \<and>
   GetBundlerVersion (snd (InstallBundler demo_collab demo_world)) = ''1.17.3'' \<and>
   \<not> present (filesys (snd (InstallBundler demo_collab demo_world)))
         [''deps'', ''0'', ''bundler'', ''gems'', ''bundler-2.0.1'', ''exe''] \<and>
   \<not> present (filesys (snd (InstallBundler demo_collab demo_world)))
         [''deps'', ''0'', ''bundler2'', ''gems'', ''bundler-2.0.1'', ''exe''] \<and>
   fst (InstallBundler (demo_collab\<lparr>CheckBundler2Compatibility := Inr True\<rparr>) demo_world) = Inr () \<and>
   GetBundlerVersion (snd (InstallBundler (demo_collab\<lparr>CheckBundler2Compatibility := Inr True\<rparr>) demo_world))
     = ''2.0.1'' \<and>
   present (filesys (snd (InstallBundler (demo_collab\<lparr>CheckBundler2Compatibility := Inr True\<rparr>) demo_world)))
     [''deps'', ''0'', ''bundler'', ''gems'', ''bundler-1.17.3'', ''exe''] \<and>
   \<not> present (filesys (snd (InstallBundler (demo_collab\<lparr>CheckBundler2Compatibility := Inr True\<rparr>) demo_world)))
         [''deps'', ''0'', ''bundler2'']"
proof -
  let ?c = "demo_collab\<lparr>CheckBundler2Compatibility := Inr True\<rparr>"
  let ?p2 = "[''deps'', ''0'', ''bundler'', ''gems'', ''bundler-2.0.1'', ''exe'']"
  let ?p1 = "[''deps'', ''0'', ''bundler'', ''gems'', ''bundler-1.17.3'', ''exe'']"
  let ?u2 = "[''deps'', ''0'', ''bundler2'', ''gems'', ''bundler-2.0.1'', ''exe'']"
  let ?u = "[''deps'', ''0'', ''bundler2'']"
  have g: "appHasGemfile demo_world"
    by (simp add: demo_world_def)
  have "fst (installBundlerOne ?c demo_world) = Inr ''1.17.3''"
    by code_simp
  then have one: "installBundlerOne ?c demo_world = (Inr ''1.17.3'', snd (installBundlerOne ?c demo_world))"
    by (metis prod.collapse)
  have "fst (installBundlerTwo ?c (SetBundlerVersion ''1.17.3'' (snd (installBundlerOne ?c demo_world))))
          = Inr ''2.0.1''"
    by code_simp
  then have two: "installBundlerTwo ?c (SetBundlerVersion ''1.17.3'' (snd (installBundlerOne ?c demo_world)))
          = (Inr ''2.0.1'', snd (installBundlerTwo ?c (SetBundlerVersion ''1.17.3'' (snd (installBundlerOne ?c demo_world)))))"
    by (metis prod.collapse)
  have "fst (installBundlerOne demo_collab demo_world) = Inr ''1.17.3''"
    by code_simp
  then have one': "installBundlerOne demo_collab demo_world = (Inr ''1.17.3'', snd (installBundlerOne demo_collab demo_world))"
    by (metis prod.collapse)
  have "fst (installBundlerTwo demo_collab (SetBundlerVersion ''1.17.3'' (snd (installBundlerOne demo_collab demo_world))))
          = Inr ''2.0.1''"
    by code_simp
  then have two': "installBundlerTwo demo_collab (SetBundlerVersion ''1.17.3'' (snd (installBundlerOne demo_collab demo_world)))
          = (Inr ''2.0.1'', snd (installBundlerTwo demo_collab (SetBundlerVersion ''1.17.3'' (snd (installBundlerOne demo_collab demo_world)))))"
    by (metis prod.collapse)
  have t: "CheckBundler2Compatibility ?c = Inr True"
    by simp
  have f: "CheckBundler2Compatibility demo_collab = Inr False"
    by (simp add: demo_collab_def)
  have ok: "fst (InstallBundler demo_collab demo_world) = Inr ()"
    by code_simp
  have d: "DepDir demo_collab = [''deps'', ''0'']" "DepDir ?c = [''deps'', ''0'']"
    by (simp_all add: demo_collab_def)
  have nf: "\<not> io_fault demo_collab OpRemoveAll [''deps'', ''0'', ''bundler2'']"
      "\<not> io_fault ?c OpRemoveAll [''deps'', ''0'', ''bundler2'']"
    by (simp_all add: demo_collab_def)
  have pre: "prefix [''deps'', ''0'', ''bundler'', ''gems'', ''bundler-2.0.1''] ?p2"
    by simp
  have preu: "prefix ?u ?u2" "prefix ?u ?u"
    by simp_all
  have was: "present (filesys (snd (installBundlerOne ?c demo_world))) ?p1"
    by code_simp
  have out: "\<not> prefix [''deps'', ''0'', ''bundler2''] ?p1"
    by simp
  note A0 = C3_InstallBundler_negotiation [OF g one' two' prod.collapse [symmetric]]
  note B0 = C3_InstallBundler_negotiation [OF g one two prod.collapse [symmetric]]
  have A: "GetBundlerVersion (snd (InstallBundler demo_collab demo_world)) = ''1.17.3'' \<and>
           \<not> present (filesys (snd (InstallBundler demo_collab demo_world))) ?p2 \<and>
           FindMatchingVersion demo_collab ''1.X.X'' (AllDependencyVersions demo_collab ''bundler'') = Inr ''1.17.3'' \<and>
           FindMatchingVersion demo_collab ''2.X.X'' (AllDependencyVersions demo_collab ''bundler'') = Inr ''2.0.1''"
    using A0 f ok pre
    by (simp add: d)
  have A': "\<not> present (filesys (snd (InstallBundler demo_collab demo_world))) ?u2"
    using A0 nf(1) preu(1)
    by (simp add: d)
  have B: "fst (InstallBundler ?c demo_world) = Inr () \<and>
           GetBundlerVersion (snd (InstallBundler ?c demo_world)) = ''2.0.1'' \<and>
           present (filesys (snd (InstallBundler ?c demo_world))) ?p1"
    using B0 t was out
    by (simp add: d)
  have B': "\<not> present (filesys (snd (InstallBundler ?c demo_world))) ?u"
    using B0 nf(2) preu(2)
    by (simp add: d)
  from A A' B B' show ?thesis by blast
qed

text \<open>
  C3 as stated fails, in two ways. With an incompatible result and a failing deletion
  of the gem directory of bundler 2, a file of the bundler 2 installation is still
  present in that directory after \<open>InstallBundler\<close> has returned (with the error of the
  deletion). With an incompatible result and a failing deferred removal of the directory
  \<open>bundler2\<close>, \<open>InstallBundler\<close> returns success and a file of the bundler 2
  installation is still present below \<open>bundler2\<close>.
\<close>

theorem C3_counterexample:
  "CheckBundler2Compatibility faulty_collab = Inr False \<and>
   present (filesys (snd (InstallBundler faulty_collab demo_world)))
     [''deps'', ''0'', ''bundler'', ''gems'', ''bundler-2.0.1'', ''exe''] \<and>
   CheckBundler2Compatibility unpack_fault_collab = Inr False \<and>
   fst (InstallBundler unpack_fault_collab demo_world) = Inr () \<and>
   present (filesys (snd (InstallBundler unpack_fault_collab demo_world)))
     [''deps'', ''0'', ''bundler2'', ''gems'', ''bundler-2.0.1'', ''exe'']"
  by code_simp

subsection \<open>The environment materializer\<close>

lemma writeEnvFiles_Cons:
  "writeEnvFiles c ((k, v) # xs) clobber w =
     (if os_Getenv (environ w) k = [] \<or> clobber then
        (if io_fault c OpWriteEnvFile [k]
         then (Inl (Error ''write env file''),
               if valid_env k v then w\<lparr>environ := put k v (environ w)\<rparr> else w)
         else writeEnvFiles c xs clobber (applied k v w))
      else writeEnvFiles c xs clobber w)"
  by (simp add: os_Setenv_def WriteEnvFile_def applied_def Let_def)

lemma writeEnvFiles_frame:
  assumes "writeEnvFiles c xs clobber w = (r, w1)" and "k \<notin> fst ` set xs"
  shows "lookup (environ w1) k = lookup (environ w) k \<and> lookup (env_files w1) k = lookup (env_files w) k"
  using assms
proof (induction xs arbitrary: w)
  case Nil
  then show ?case by simp
next
  case (Cons x xs)
  obtain k' v' where x: "x = (k', v')" by (cases x)
  from Cons.prems(2) x have ne: "k \<noteq> k'" and notin: "k \<notin> fst ` set xs" by auto
  show ?case
  proof (cases "os_Getenv (environ w) k' = [] \<or> clobber")
    case False
    with Cons.prems(1) x have "writeEnvFiles c xs clobber w = (r, w1)"
      by (simp add: writeEnvFiles_Cons del: writeEnvFiles.simps)
    from Cons.IH [OF this notin] show ?thesis .
  next
    case True
    show ?thesis
    proof (cases "io_fault c OpWriteEnvFile [k']")
      case True
      with \<open>os_Getenv (environ w) k' = [] \<or> clobber\<close> Cons.prems(1) x ne show ?thesis
        by (auto simp: writeEnvFiles_Cons lookup_put simp del: writeEnvFiles.simps split: if_splits)
    next
      case False
      with True Cons.prems(1) x have "writeEnvFiles c xs clobber (applied k' v' w) = (r, w1)"
        by (simp add: writeEnvFiles_Cons del: writeEnvFiles.simps)
      from Cons.IH [OF this notin] ne show ?thesis
        by (simp add: applied_def lookup_put)
    qed
  qed
qed

lemma lookup_applied:
  "lookup (env_files (applied k v w)) k = Some v"
  "valid_env k v \<Longrightarrow> lookup (environ (applied k v w)) k = Some v"
  "k' \<noteq> k \<Longrightarrow> lookup (environ (applied k v w)) k' = lookup (environ w) k'"
  by (simp_all add: applied_def lookup_put)

text \<open>After a successful pass, every entry whose variable was empty (or every entry, when
  overwriting) has its file, and its variable when \<open>os_Setenv\<close> accepts it.\<close>

lemma writeEnvFiles_sets:
  assumes "writeEnvFiles c xs clobber w = (Inr (), w1)" and "distinct (map fst xs)"
    and "(k, v) \<in> set xs" and "os_Getenv (environ w) k = [] \<or> clobber"
  shows "(valid_env k v \<longrightarrow> lookup (environ w1) k = Some v) \<and> lookup (env_files w1) k = Some v \<and>
         \<not> io_fault c OpWriteEnvFile [k]"
  using assms
proof (induction xs arbitrary: w)
  case Nil
  then show ?case by simp
next
  case (Cons x xs)
  obtain k' v' where x: "x = (k', v')" by (cases x)
  from Cons.prems(2) x have notin: "k' \<notin> fst ` set xs" and dist: "distinct (map fst xs)"
    by auto
  show ?case
  proof (cases "(k, v) = (k', v')")
    case True
    with Cons.prems(1,4) x
    have nofault: "\<not> io_fault c OpWriteEnvFile [k]"
      and rest: "writeEnvFiles c xs clobber (applied k v w) = (Inr (), w1)"
      by (auto simp: writeEnvFiles_Cons simp del: writeEnvFiles.simps split: if_splits)
    from True notin have "k \<notin> fst ` set xs" by simp
    from writeEnvFiles_frame [OF rest this] nofault show ?thesis
      by (simp add: lookup_applied)
  next
    case False
    with Cons.prems(3) x have mem: "(k, v) \<in> set xs" by auto
    with notin have ne: "k \<noteq> k'" by force
    show ?thesis
    proof (cases "os_Getenv (environ w) k' = [] \<or> clobber")
      case False
      with Cons.prems(1) x have "writeEnvFiles c xs clobber w = (Inr (), w1)"
        by (simp add: writeEnvFiles_Cons del: writeEnvFiles.simps)
      from Cons.IH [OF this dist mem Cons.prems(4)] show ?thesis .
    next
      case True
      with Cons.prems(1) x
      have rest: "writeEnvFiles c xs clobber (applied k' v' w) = (Inr (), w1)"
        by (auto simp: writeEnvFiles_Cons simp del: writeEnvFiles.simps split: if_splits)
      from Cons.prems(4) ne have "os_Getenv (environ (applied k' v' w)) k = [] \<or> clobber"
        by (simp add: os_Getenv_def lookup_applied)
      from Cons.IH [OF rest dist mem this] show ?thesis .
    qed
  qed
qed

text \<open>Without overwriting, a variable with a non-empty value keeps it, whatever the
  result.\<close>

lemma writeEnvFiles_keeps:
  assumes "writeEnvFiles c xs False w = (r, w1)" and "os_Getenv (environ w) k \<noteq> []"
  shows "lookup (environ w1) k = lookup (environ w) k"
  using assms
proof (induction xs arbitrary: w)
  case Nil
  then show ?case by simp
next
  case (Cons x xs)
  obtain k' v' where x: "x = (k', v')" by (cases x)
  show ?case
  proof (cases "os_Getenv (environ w) k' = []")
    case False
    with Cons.prems(1) x have "writeEnvFiles c xs False w = (r, w1)"
      by (simp add: writeEnvFiles_Cons del: writeEnvFiles.simps)
    from Cons.IH [OF this Cons.prems(2)] show ?thesis .
  next
    case True
    with Cons.prems(2) have ne: "k \<noteq> k'" by auto
    show ?thesis
    proof (cases "io_fault c OpWriteEnvFile [k']")
      case True
      with \<open>os_Getenv (environ w) k' = []\<close> Cons.prems(1) x ne show ?thesis
        by (auto simp: writeEnvFiles_Cons lookup_put simp del: writeEnvFiles.simps split: if_splits)
    next
      case False
      with True Cons.prems(1) x have rest: "writeEnvFiles c xs False (applied k' v' w) = (r, w1)"
        by (simp add: writeEnvFiles_Cons del: writeEnvFiles.simps)
      from Cons.prems(2) ne have "os_Getenv (environ (applied k' v' w)) k \<noteq> []"
        by (simp add: os_Getenv_def lookup_applied)
      from Cons.IH [OF rest this] ne show ?thesis
        by (simp add: lookup_applied)
    qed
  qed
qed

lemma applied_settled:
  assumes "settled c k v w" and "os_Getenv (environ w) k = []"
  shows "applied k v w = w" and "\<not> io_fault c OpWriteEnvFile [k]"
  using assms by (auto simp: settled_def applied_def put_same)

lemma writeEnvFiles_settled:
  assumes "\<forall>(k, v) \<in> set ys. settled c k v w"
  shows "writeEnvFiles c ys False w = (Inr (), w)"
  using assms
proof (induction ys)
  case Nil
  then show ?case by simp
next
  case (Cons y ys)
  obtain k v where y: "y = (k, v)" by (cases y)
  from Cons.prems y have s: "settled c k v w" and rest: "\<forall>(k, v) \<in> set ys. settled c k v w"
    by auto
  from Cons.IH [OF rest] applied_settled [OF s] y show ?case
    by (auto simp: writeEnvFiles_Cons simp del: writeEnvFiles.simps)
qed

lemma writeEnvFiles_settles:
  assumes "writeEnvFiles c xs False w = (Inr (), w1)" and "distinct (map fst xs)"
    and "(k, v) \<in> set xs"
  shows "settled c k v w1"
proof (cases "os_Getenv (environ w) k = []")
  case True
  with writeEnvFiles_sets [OF assms, of ] show ?thesis
    by (auto simp: settled_def)
next
  case False
  from writeEnvFiles_keeps [OF assms(1) False] False show ?thesis
    by (simp add: settled_def os_Getenv_def)
qed

text \<open>
  C6, as the code has it. For a defaults mapping (a list with distinct names, in the
  order of iteration) and \<open>overwrite = false\<close>: if one application succeeds, a second
  one, in any order of iteration, succeeds and leaves the whole state, so the process
  environment and the environment files, as the first left it. Without overwriting a
  variable with a non-empty value is never changed. A variable that \<^verbatim>\<open>os.Getenv\<close>
  reports empty (absent, or set to the empty string) and, with \<open>overwrite = true\<close>,
  every variable is set: when \<open>writeEnvFiles\<close> returns success its environment file
  holds the value and, if \<^verbatim>\<open>os.Setenv\<close> accepts name and value, so does the process
  environment.
\<close>

theorem C6_writeEnvFiles:
  assumes "distinct (map fst xs)"
  shows "(\<forall>ys w1. set ys = set xs \<and> writeEnvFiles c xs False w = (Inr (), w1) \<longrightarrow>
            writeEnvFiles c ys False w1 = (Inr (), w1)) \<and>
         (\<forall>r w1 k. writeEnvFiles c xs False w = (r, w1) \<and> os_Getenv (environ w) k \<noteq> [] \<longrightarrow>
            lookup (environ w1) k = lookup (environ w) k) \<and>
         (\<forall>clobber w1 k v.
            writeEnvFiles c xs clobber w = (Inr (), w1) \<and> (k, v) \<in> set xs \<and>
            (os_Getenv (environ w) k = [] \<or> clobber) \<longrightarrow>
              (valid_env k v \<longrightarrow> lookup (environ w1) k = Some v) \<and>
              lookup (env_files w1) k = Some v)"
proof (intro conjI allI impI)
  fix ys w1
  assume a: "set ys = set xs \<and> writeEnvFiles c xs False w = (Inr (), w1)"
  then have "\<forall>(k, v) \<in> set ys. settled c k v w1"
    using writeEnvFiles_settles [OF _ assms] by blast
  then show "writeEnvFiles c ys False w1 = (Inr (), w1)"
    by (rule writeEnvFiles_settled)
next
  fix r w1 k
  assume "writeEnvFiles c xs False w = (r, w1) \<and> os_Getenv (environ w) k \<noteq> []"
  then show "lookup (environ w1) k = lookup (environ w) k"
    using writeEnvFiles_keeps by blast
next
  fix clobber w1 k v
  assume a: "writeEnvFiles c xs clobber w = (Inr (), w1) \<and> (k, v) \<in> set xs \<and>
            (os_Getenv (environ w) k = [] \<or> clobber)"
  then have *: "(valid_env k v \<longrightarrow> lookup (environ w1) k = Some v) \<and> lookup (env_files w1) k = Some v \<and>
         \<not> io_fault c OpWriteEnvFile [k]"
    using writeEnvFiles_sets [OF _ assms] by blast
  { assume "valid_env k v"
    with * show "lookup (environ w1) k = Some v" by blast }
  from * show "lookup (env_files w1) k = Some v" by blast
qed

theorem C6_witness:
  "writeEnvFiles demo_collab (rev (environmentDefaults demo_collab)) False
     (snd (CreateDefaultEnv demo_collab empty_var_world)) =
     (Inr (), snd (CreateDefaultEnv demo_collab empty_var_world)) \<and>
   lookup (environ (snd (CreateDefaultEnv demo_collab empty_var_world))) ''RAILS_GROUPS'' = Some ''all'' \<and>
   lookup (environ (snd (CreateDefaultEnv demo_collab empty_var_world))) ''RACK_ENV'' = Some ''production'' \<and>
   lookup (env_files (snd (CreateDefaultEnv demo_collab empty_var_world))) ''RACK_ENV'' = Some ''production'' \<and>
   lookup (environ (snd (writeEnvFiles demo_collab [(''RAILS_GROUPS'', ''assets'')] True empty_var_world)))
     ''RAILS_GROUPS'' = Some ''assets''"
proof -
  let ?xs = "environmentDefaults demo_collab"
  let ?ys = "[(''RAILS_GROUPS'', ''assets'')]"
  let ?w1 = "snd (CreateDefaultEnv demo_collab empty_var_world)"
  let ?w2 = "snd (writeEnvFiles demo_collab ?ys True empty_var_world)"
  have d: "distinct (map fst ?xs)"
    by (simp add: environmentDefaults_def)
  have d': "distinct (map fst ?ys)"
    by simp
  note main = C6_writeEnvFiles [OF d, of demo_collab empty_var_world]
  note main' = C6_writeEnvFiles [OF d', of demo_collab empty_var_world]
  have "fst (writeEnvFiles demo_collab ?xs False empty_var_world) = Inr ()"
    by code_simp
  then have once: "writeEnvFiles demo_collab ?xs False empty_var_world = (Inr (), ?w1)"
    unfolding CreateDefaultEnv_def by (metis prod.collapse)
  have "fst (writeEnvFiles demo_collab ?ys True empty_var_world) = Inr ()"
    by code_simp
  then have over: "writeEnvFiles demo_collab ?ys True empty_var_world = (Inr (), ?w2)"
    by (metis prod.collapse)
  have s: "set (rev ?xs) = set ?xs"
    by simp
  have g: "os_Getenv (environ empty_var_world) ''RAILS_GROUPS'' \<noteq> []"
          "os_Getenv (environ empty_var_world) ''RACK_ENV'' = []"
          "lookup (environ empty_var_world) ''RAILS_GROUPS'' = Some ''all''"
    by (simp_all add: os_Getenv_def lookup_def empty_var_world_def)
  have m: "(''RACK_ENV'', ''production'') \<in> set ?xs" "(''RAILS_GROUPS'', ''assets'') \<in> set ?ys"
    by (simp_all add: environmentDefaults_def)
  have v: "valid_env ''RACK_ENV'' ''production''" "valid_env ''RAILS_GROUPS'' ''assets''"
    by (simp_all add: valid_env_def)
  from main have 1: "writeEnvFiles demo_collab (rev ?xs) False ?w1 = (Inr (), ?w1)"
    using s once by blast
  from main have "lookup (environ ?w1) ''RAILS_GROUPS'' = lookup (environ empty_var_world) ''RAILS_GROUPS''"
    using once g(1) by blast
  with g(3) have 2: "lookup (environ ?w1) ''RAILS_GROUPS'' = Some ''all''"
    by simp
  from main have 3: "lookup (environ ?w1) ''RACK_ENV'' = Some ''production'' \<and>
           lookup (env_files ?w1) ''RACK_ENV'' = Some ''production''"
    using once m(1) g(2) v(1) by blast
  from main' have 4: "lookup (environ ?w2) ''RAILS_GROUPS'' = Some ''assets''"
    using over m(2) v(2) by blast
  from 1 2 3 4 show ?thesis by blast
qed

text \<open>
  C6 as stated fails in three places. A variable that is present with an empty value is
  set although \<open>overwrite\<close> is false. When the first application fails at
  \<open>RAILS_ENV\<close>, whose file cannot be written, a second application goes on and sets
  \<open>RACK_ENV\<close>, so twice is not once. With \<open>overwrite = true\<close> a variable whose name
  \<^verbatim>\<open>os.Setenv\<close> refuses is not set.
\<close>

theorem C6_counterexample:
  "present (environ empty_var_world) ''RACK_ENV'' \<and>
   lookup (environ (snd (writeEnvFiles demo_collab [(''RACK_ENV'', ''production'')] False empty_var_world)))
     ''RACK_ENV'' = Some ''production'' \<and>
   environ (snd (CreateDefaultEnv env_fault_collab demo_world)) = [(''RAILS_ENV'', ''production'')] \<and>
   lookup (environ (snd (CreateDefaultEnv env_fault_collab
                           (snd (CreateDefaultEnv env_fault_collab demo_world))))) ''RACK_ENV''
     = Some ''production'' \<and>
   writeEnvFiles demo_collab [(''A=B'', ''1'')] True demo_world =
     (Inr (), demo_world\<lparr>env_files := [(''A=B'', ''1'')]\<rparr>)"
  by code_simp

subsection \<open>DetermineRuby\<close>

text \<open>
  C8. With a Gemfile that declares the engine \<open>ruby\<close> and no version,
  \<open>DetermineRuby\<close> returns the catalog's default ruby version and logs a warning;
  for every engine name other than \<open>ruby\<close> and \<open>jruby\<close> it fails with an error.
\<close>

theorem C8_DetermineRuby_manifest:
  assumes "appHasGemfile w"
  shows "(Engine c = Inr ''ruby'' \<and> Version c = Inr [] \<and> DefaultVersion c ''ruby'' = Inr dep \<longrightarrow>
            DetermineRuby c w =
              (Inr (''ruby'', dep_version dep), Log (no_version_warning (dep_version dep)) w)) \<and>
         (Engine c = Inr engine \<and> engine \<noteq> ''ruby'' \<and> engine \<noteq> ''jruby'' \<longrightarrow>
            DetermineRuby c w = (Inl (Error (''Sorry, we do not support engine: '' @ engine)), w))"
  using assms by (simp add: DetermineRuby_def)

theorem C8_witness:
  "DetermineRuby demo_collab demo_world =
     (Inr (''ruby'', ''2.6.3''), Log (no_version_warning ''2.6.3'') demo_world) \<and>
   DetermineRuby (demo_collab\<lparr>Engine := Inr ''rbx''\<rparr>) demo_world =
     (Inl (Error ''Sorry, we do not support engine: rbx''), demo_world)"
proof -
  have g: "appHasGemfile demo_world"
    by (simp add: demo_world_def)
  have a: "Engine demo_collab = Inr ''ruby'' \<and> Version demo_collab = Inr [] \<and>
           DefaultVersion demo_collab ''ruby'' = Inr \<lparr>dep_name = ''ruby'', dep_version = ''2.6.3''\<rparr>"
    by (simp add: demo_collab_def)
  have b: "Engine (demo_collab\<lparr>Engine := Inr ''rbx''\<rparr>) = Inr ''rbx'' \<and> ''rbx'' \<noteq> ''ruby'' \<and> ''rbx'' \<noteq> ''jruby''"
    by simp
  from C8_DetermineRuby_manifest [OF g, of demo_collab "\<lparr>dep_name = ''ruby'', dep_version = ''2.6.3''\<rparr>"] a
  have 1: "DetermineRuby demo_collab demo_world =
     (Inr (''ruby'', ''2.6.3''), Log (no_version_warning ''2.6.3'') demo_world)"
    by simp
  from C8_DetermineRuby_manifest [OF g, of "demo_collab\<lparr>Engine := Inr ''rbx''\<rparr>" _ "''rbx''"] b
  have 2: "DetermineRuby (demo_collab\<lparr>Engine := Inr ''rbx''\<rparr>) demo_world =
     (Inl (Error ''Sorry, we do not support engine: rbx''), demo_world)"
    by simp
  from 1 2 show ?thesis by blast
qed

subsection \<open>NeedsNode\<close>

lemma probe_gems_cached: "cachedNeedsNode (probe_gems c names w) = cachedNeedsNode w"
  by (induction names arbitrary: w) (auto simp: Let_def Log_def called_def split: sum.splits)

lemma probe_gems_all_errors:
  "\<forall>name \<in> set names. \<exists>e. HasGemVersion c name [''>=0.0.0''] = Inl e \<Longrightarrow>
     needsNode (probe_gems c names w) = needsNode w"
  by (induction names arbitrary: w) (auto simp: Let_def Log_def called_def split: sum.splits)

lemma NeedsNode_cached:
  "cachedNeedsNode w \<Longrightarrow> NeedsNode c w = (needsNode w, w)"
  by (simp add: NeedsNode_def)

lemma NeedsNode_uncached:
  assumes "\<not> cachedNeedsNode w"
  shows "NeedsNode c w =
     (let w2 = called (CallCommandOutput (BuildDir c) ''node'' [''--version''])
                 (w\<lparr>cachedNeedsNode := True, needsNode := False\<rparr>);
          w3 = (case CommandOutput c (BuildDir c) ''node'' [''--version''] of
                  Inl e \<Rightarrow> probe_gems c [''webpacker'', ''execjs''] w2
                | Inr out \<Rightarrow>
                    Log (BeginStep ''Skipping install of nodejs since it has been supplied'') w2)
      in (needsNode w3, w3))"
  using assms
  by (simp add: NeedsNode_def Let_def isNodeInstalled_def split: sum.splits
           del: probe_gems.simps)

lemma NeedsNode_first:
  assumes "\<not> cachedNeedsNode w" and "NeedsNode c w = (b, w1)"
  shows "cachedNeedsNode w1" and "needsNode w1 = b"
  using assms(2) unfolding NeedsNode_uncached [OF assms(1)]
  by (auto simp: Let_def Log_def called_def probe_gems_cached split: sum.splits
           simp del: probe_gems.simps)

text \<open>
  C10. \<open>NeedsNode\<close> returns a boolean and no error. On the first call of a run, if
  the probes for \<open>webpacker\<close> and \<open>execjs\<close> both return an error, the result is
  \<open>false\<close>. Whatever the first call returns, the next call returns the same boolean
  and leaves the state as it is, the recorded calls included, so nothing is probed
  again; the same holds in every later state that still has the two memo fields.
\<close>

theorem C10_NeedsNode_memoized:
  assumes "\<not> cachedNeedsNode w" and "NeedsNode c w = (b, w1)"
  shows "((\<exists>e. HasGemVersion c ''webpacker'' [''>=0.0.0''] = Inl e) \<and>
          (\<exists>e. HasGemVersion c ''execjs'' [''>=0.0.0''] = Inl e) \<longrightarrow> b = False) \<and>
         NeedsNode c w1 = (b, w1) \<and>
         (\<forall>w2. cachedNeedsNode w2 = cachedNeedsNode w1 \<and> needsNode w2 = needsNode w1 \<longrightarrow>
               NeedsNode c w2 = (b, w2))"
proof -
  note first = NeedsNode_first [OF assms]
  have "b = False"
    if "(\<exists>e. HasGemVersion c ''webpacker'' [''>=0.0.0''] = Inl e) \<and>
        (\<exists>e. HasGemVersion c ''execjs'' [''>=0.0.0''] = Inl e)"
  proof -
    from that have "\<forall>name \<in> set [''webpacker'', ''execjs'']. \<exists>e. HasGemVersion c name [''>=0.0.0''] = Inl e"
      by simp
    note probe_gems_all_errors [OF this]
    with assms(2) show ?thesis
      unfolding NeedsNode_uncached [OF assms(1)]
      by (auto simp: Let_def Log_def called_def split: sum.splits simp del: probe_gems.simps)
  qed
  with first show ?thesis
    by (simp add: NeedsNode_cached)
qed

theorem C10_witness:
  "fst (NeedsNode demo_collab demo_world) = False \<and>
   NeedsNode demo_collab (snd (NeedsNode demo_collab demo_world)) =
     (False, snd (NeedsNode demo_collab demo_world)) \<and>
   calls (snd (NeedsNode demo_collab (snd (NeedsNode demo_collab demo_world)))) =
     [CallCommandOutput [''home'', ''vcap'', ''app''] ''node'' [''--version''],
      CallHasGemVersion ''webpacker'', CallHasGemVersion ''execjs'']"
proof -
  have n: "\<not> cachedNeedsNode demo_world"
    by (simp add: demo_world_def)
  have e: "(\<exists>e. HasGemVersion demo_collab ''webpacker'' [''>=0.0.0''] = Inl e) \<and>
           (\<exists>e. HasGemVersion demo_collab ''execjs'' [''>=0.0.0''] = Inl e)"
    by (simp add: demo_collab_def)
  have c: "calls (snd (NeedsNode demo_collab demo_world)) =
     [CallCommandOutput [''home'', ''vcap'', ''app''] ''node'' [''--version''],
      CallHasGemVersion ''webpacker'', CallHasGemVersion ''execjs'']"
    by code_simp
  note main = C10_NeedsNode_memoized [OF n prod.collapse [symmetric], of demo_collab]
  from main e have b: "fst (NeedsNode demo_collab demo_world) = False"
    by blast
  from main have again: "NeedsNode demo_collab (snd (NeedsNode demo_collab demo_world)) =
      (fst (NeedsNode demo_collab demo_world), snd (NeedsNode demo_collab demo_world))"
    by blast
  from again have "snd (NeedsNode demo_collab (snd (NeedsNode demo_collab demo_world))) =
      snd (NeedsNode demo_collab demo_world)"
    by (simp only: snd_conv)
  with c have c': "calls (snd (NeedsNode demo_collab (snd (NeedsNode demo_collab demo_world)))) =
     [CallCommandOutput [''home'', ''vcap'', ''app''] ''node'' [''--version''],
      CallHasGemVersion ''webpacker'', CallHasGemVersion ''execjs'']"
    by (simp only:)
  from again b have "NeedsNode demo_collab (snd (NeedsNode demo_collab demo_world)) =
     (False, snd (NeedsNode demo_collab demo_world))"
    by (simp only:)
  with b c' show ?thesis by blast
qed

subsection \<open>Without a Gemfile\<close>

lemma installBundlerOne_calls:
  "calls (snd (installBundlerOne c w)) =
     calls w @
       (case FindMatchingVersion c ''1.X.X'' (AllDependencyVersions c ''bundler'') of
          Inl e \<Rightarrow> []
        | Inr v \<Rightarrow> [CallInstallDependency \<lparr>dep_name = ''bundler'', dep_version = v\<rparr>
                      (DepDir c @ [''bundler''])])"
  by (auto simp: installBundlerOne_def InstallDependency_def Let_def called_def
           split: sum.splits prod.splits)

lemma InstallBundler_no_Gemfile:
  assumes "\<not> appHasGemfile w"
  shows "InstallBundler c w =
     (case installBundlerOne c w of
        (Inl e, w1) \<Rightarrow> (Inl e, w1)
      | (Inr v, w1) \<Rightarrow> (Inr (), SetBundlerVersion v w1))"
proof (cases "installBundlerOne c w")
  case (Pair r w1)
  with assms have "\<not> appHasGemfile w1"
    by (simp add: installBundlerOne_appHasGemfile)
  with Pair show ?thesis
    by (simp add: InstallBundler_def Let_def SetBundlerVersion_def split: sum.splits)
qed

lemma installBundlerOne_success:
  assumes "installBundlerOne c w = (Inr v, w1)"
  shows "\<exists>w2 fs1.
           InstallDependency c \<lparr>dep_name = ''bundler'', dep_version = v\<rparr>
             (DepDir c @ [''bundler'']) w = (Inr (), w2) \<and>
           LinkDirectoryInDepDir c (DepDir c @ [''bundler'', ''bin'']) ''bin'' (filesys w2) = Inr fs1 \<and>
           w1 = w2\<lparr>filesys := fs1\<rparr>"
  using assms
  by (auto simp: installBundlerOne_def split: sum.splits prod.splits)

text \<open>
  C7. When \<open>Setup\<close> finds no Gemfile, the flag \<open>appHasGemfile\<close> is false, and in every
  state of the run with that flag: \<open>DetermineRuby\<close> answers the engine \<open>ruby\<close> with
  the catalog's default ruby version (or the catalog's error, when it has no default);
  \<open>InstallBundler\<close> does what the primary install \<open>installBundlerOne\<close> does and, when
  that returns a version, makes it the active version and returns success; so when
  \<open>InstallBundler\<close> returns success, the archive of the bundler matching 1.X.X has been
  installed into \<open>bundler\<close>, its \<open>bin\<close> has been linked and that version is the
  active one; the only collaborator call \<open>InstallBundler\<close> makes is that install, so
  neither the install of bundler 2 nor the compatibility test is attempted; and
  \<open>InstallGems\<close> returns success at once, leaving the state as it is.
\<close>

theorem C7_no_Gemfile:
  assumes "\<not> present (filesys w0) (Gemfile c)" and "Setup c w0 = (Inr (), w1)"
  shows "\<not> appHasGemfile w1 \<and>
         (\<forall>w. appHasGemfile w = appHasGemfile w1 \<longrightarrow>
            DetermineRuby c w =
              (case DefaultVersion c ''ruby'' of
                 Inl e \<Rightarrow>
                   (Inl (Error (''unable to determine default ruby version: '' @ error_msg e)), w)
               | Inr dep \<Rightarrow> (Inr (''ruby'', dep_version dep), w)) \<and>
            InstallBundler c w =
              (case installBundlerOne c w of
                 (Inl e, w2) \<Rightarrow> (Inl e, w2)
               | (Inr v, w2) \<Rightarrow> (Inr (), SetBundlerVersion v w2)) \<and>
            (fst (InstallBundler c w) = Inr () \<longrightarrow>
               (\<exists>v w2 fs1.
                  FindMatchingVersion c ''1.X.X'' (AllDependencyVersions c ''bundler'') = Inr v \<and>
                  InstallDependency c \<lparr>dep_name = ''bundler'', dep_version = v\<rparr>
                    (DepDir c @ [''bundler'']) w = (Inr (), w2) \<and>
                  LinkDirectoryInDepDir c (DepDir c @ [''bundler'', ''bin'']) ''bin'' (filesys w2) =
                    Inr fs1 \<and>
                  snd (InstallBundler c w) = SetBundlerVersion v (w2\<lparr>filesys := fs1\<rparr>))) \<and>
            calls (snd (InstallBundler c w)) =
              calls w @
                (case FindMatchingVersion c ''1.X.X'' (AllDependencyVersions c ''bundler'') of
                   Inl e \<Rightarrow> []
                 | Inr v \<Rightarrow> [CallInstallDependency \<lparr>dep_name = ''bundler'', dep_version = v\<rparr>
                               (DepDir c @ [''bundler''])]) \<and>
            InstallGems c w = (Inr (), w))"
proof -
  from assms have no: "\<not> appHasGemfile w1"
    by (auto simp: Setup_def FileExists_def Let_def split: if_splits)
  have calls: "calls (snd (InstallBundler c w)) = calls (snd (installBundlerOne c w))"
    if "\<not> appHasGemfile w" for w
    unfolding InstallBundler_no_Gemfile [OF that]
    by (auto simp: SetBundlerVersion_def split: prod.splits sum.splits)
  have success: "\<exists>v w2 fs1.
                  FindMatchingVersion c ''1.X.X'' (AllDependencyVersions c ''bundler'') = Inr v \<and>
                  InstallDependency c \<lparr>dep_name = ''bundler'', dep_version = v\<rparr>
                    (DepDir c @ [''bundler'']) w = (Inr (), w2) \<and>
                  LinkDirectoryInDepDir c (DepDir c @ [''bundler'', ''bin'']) ''bin'' (filesys w2) =
                    Inr fs1 \<and>
                  snd (InstallBundler c w) = SetBundlerVersion v (w2\<lparr>filesys := fs1\<rparr>)"
    if g: "\<not> appHasGemfile w" and ok: "fst (InstallBundler c w) = Inr ()" for w
  proof -
    obtain r2 w2 where one: "installBundlerOne c w = (r2, w2)"
      by (cases "installBundlerOne c w")
    with ok obtain v where v: "r2 = Inr v" and s: "snd (InstallBundler c w) = SetBundlerVersion v w2"
      unfolding InstallBundler_no_Gemfile [OF g] by (cases r2) simp_all
    from one v installBundlerOne_version have "FindMatchingVersion c ''1.X.X'' (AllDependencyVersions c ''bundler'') = Inr v"
      by blast
    moreover from one v installBundlerOne_success [of c w v w2]
    obtain w3 fs1 where "InstallDependency c \<lparr>dep_name = ''bundler'', dep_version = v\<rparr>
             (DepDir c @ [''bundler'']) w = (Inr (), w3)"
      and "LinkDirectoryInDepDir c (DepDir c @ [''bundler'', ''bin'']) ''bin'' (filesys w3) = Inr fs1"
      and "w2 = w3\<lparr>filesys := fs1\<rparr>"
      by blast
    ultimately show ?thesis
      using s by blast
  qed
  show ?thesis
  proof (intro conjI allI impI)
    show "\<not> appHasGemfile w1" by (rule no)
  next
    fix w :: world
    assume "appHasGemfile w = appHasGemfile w1"
    with no have g: "\<not> appHasGemfile w" by simp
    show "DetermineRuby c w =
              (case DefaultVersion c ''ruby'' of
                 Inl e \<Rightarrow>
                   (Inl (Error (''unable to determine default ruby version: '' @ error_msg e)), w)
               | Inr dep \<Rightarrow> (Inr (''ruby'', dep_version dep), w))"
      using g by (simp add: DetermineRuby_def)
    show "InstallBundler c w =
              (case installBundlerOne c w of
                 (Inl e, w2) \<Rightarrow> (Inl e, w2)
               | (Inr v, w2) \<Rightarrow> (Inr (), SetBundlerVersion v w2))"
      by (rule InstallBundler_no_Gemfile [OF g])
    show "calls (snd (InstallBundler c w)) =
              calls w @
                (case FindMatchingVersion c ''1.X.X'' (AllDependencyVersions c ''bundler'') of
                   Inl e \<Rightarrow> []
                 | Inr v \<Rightarrow> [CallInstallDependency \<lparr>dep_name = ''bundler'', dep_version = v\<rparr>
                               (DepDir c @ [''bundler''])])"
      by (simp add: calls [OF g] installBundlerOne_calls)
    show "InstallGems c w = (Inr (), w)"
      using g by (simp add: InstallGems_def)
    assume "fst (InstallBundler c w) = Inr ()"
    with g show "\<exists>v w2 fs1.
                  FindMatchingVersion c ''1.X.X'' (AllDependencyVersions c ''bundler'') = Inr v \<and>
                  InstallDependency c \<lparr>dep_name = ''bundler'', dep_version = v\<rparr>
                    (DepDir c @ [''bundler'']) w = (Inr (), w2) \<and>
                  LinkDirectoryInDepDir c (DepDir c @ [''bundler'', ''bin'']) ''bin'' (filesys w2) =
                    Inr fs1 \<and>
                  snd (InstallBundler c w) = SetBundlerVersion v (w2\<lparr>filesys := fs1\<rparr>)"
      by (rule success)
  qed
qed

theorem C7_witness:
  "DetermineRuby demo_collab (snd (Setup demo_collab bare_world)) =
     (Inr (''ruby'', ''2.6.3''), snd (Setup demo_collab bare_world)) \<and>
   fst (InstallBundler demo_collab (snd (Setup demo_collab bare_world))) = Inr () \<and>
   GetBundlerVersion (snd (InstallBundler demo_collab (snd (Setup demo_collab bare_world)))) = ''1.17.3'' \<and>
   present (filesys (snd (InstallBundler demo_collab (snd (Setup demo_collab bare_world)))))
     [''deps'', ''0'', ''bundler'', ''gems'', ''bundler-1.17.3'', ''exe''] \<and>
   \<not> present (filesys (snd (InstallBundler demo_collab (snd (Setup demo_collab bare_world)))))
     [''deps'', ''0'', ''bundler'', ''gems'', ''bundler-2.0.1''] \<and>
   calls (snd (InstallBundler demo_collab (snd (Setup demo_collab bare_world)))) =
     [CallInstallDependency \<lparr>dep_name = ''bundler'', dep_version = ''1.17.3''\<rparr>
        [''deps'', ''0'', ''bundler'']] \<and>
   InstallGems demo_collab (snd (Setup demo_collab bare_world)) =
     (Inr (), snd (Setup demo_collab bare_world))"
proof -
  let ?w1 = "snd (Setup demo_collab bare_world)"
  let ?w2 = "snd (installBundlerOne demo_collab ?w1)"
  have a: "\<not> present (filesys bare_world) (Gemfile demo_collab)"
    by code_simp
  have "fst (Setup demo_collab bare_world) = Inr ()"
    by code_simp
  then have s: "Setup demo_collab bare_world = (Inr (), ?w1)"
    by (metis prod.collapse)
  have d: "DefaultVersion demo_collab ''ruby'' = Inr \<lparr>dep_name = ''ruby'', dep_version = ''2.6.3''\<rparr>"
    by (simp add: demo_collab_def)
  have f: "FindMatchingVersion demo_collab ''1.X.X'' (AllDependencyVersions demo_collab ''bundler'')
             = Inr ''1.17.3''"
    by code_simp
  have c0: "calls ?w1 = []"
    by code_simp
  have dd: "DepDir demo_collab = [''deps'', ''0'']"
    by (simp add: demo_collab_def)
  have one: "fst (installBundlerOne demo_collab ?w1) = Inr ''1.17.3''"
    by code_simp
  have p1: "present (filesys ?w2) [''deps'', ''0'', ''bundler'', ''gems'', ''bundler-1.17.3'', ''exe'']"
    by code_simp
  have p2: "\<not> present (filesys ?w2) [''deps'', ''0'', ''bundler'', ''gems'', ''bundler-2.0.1'']"
    by code_simp
  from C7_no_Gemfile [OF a s]
  have all: "\<forall>w. appHasGemfile w = appHasGemfile ?w1 \<longrightarrow>
            DetermineRuby demo_collab w =
              (case DefaultVersion demo_collab ''ruby'' of
                 Inl e \<Rightarrow>
                   (Inl (Error (''unable to determine default ruby version: '' @ error_msg e)), w)
               | Inr dep \<Rightarrow> (Inr (''ruby'', dep_version dep), w)) \<and>
            InstallBundler demo_collab w =
              (case installBundlerOne demo_collab w of
                 (Inl e, w2) \<Rightarrow> (Inl e, w2)
               | (Inr v, w2) \<Rightarrow> (Inr (), SetBundlerVersion v w2)) \<and>
            (fst (InstallBundler demo_collab w) = Inr () \<longrightarrow>
               (\<exists>v w2 fs1.
                  FindMatchingVersion demo_collab ''1.X.X'' (AllDependencyVersions demo_collab ''bundler'') = Inr v \<and>
                  InstallDependency demo_collab \<lparr>dep_name = ''bundler'', dep_version = v\<rparr>
                    (DepDir demo_collab @ [''bundler'']) w = (Inr (), w2) \<and>
                  LinkDirectoryInDepDir demo_collab (DepDir demo_collab @ [''bundler'', ''bin'']) ''bin'' (filesys w2) =
                    Inr fs1 \<and>
                  snd (InstallBundler demo_collab w) = SetBundlerVersion v (w2\<lparr>filesys := fs1\<rparr>))) \<and>
            calls (snd (InstallBundler demo_collab w)) =
              calls w @
                (case FindMatchingVersion demo_collab ''1.X.X'' (AllDependencyVersions demo_collab ''bundler'') of
                   Inl e \<Rightarrow> []
                 | Inr v \<Rightarrow> [CallInstallDependency \<lparr>dep_name = ''bundler'', dep_version = v\<rparr>
                               (DepDir demo_collab @ [''bundler''])]) \<and>
            InstallGems demo_collab w = (Inr (), w)"
    by (rule conjunct2)
  note inst = all [rule_format, OF refl]
  note dr = inst [THEN conjunct1]
  note eq = inst [THEN conjunct2, THEN conjunct1]
  note cl = inst [THEN conjunct2, THEN conjunct2, THEN conjunct2, THEN conjunct1]
  note ig = inst [THEN conjunct2, THEN conjunct2, THEN conjunct2, THEN conjunct2]
  from dr have 1: "DetermineRuby demo_collab ?w1 = (Inr (''ruby'', ''2.6.3''), ?w1)"
    by (simp only: d sum.case dependency.simps)
  from eq have ib: "InstallBundler demo_collab ?w1 = (Inr (), SetBundlerVersion ''1.17.3'' ?w2)"
    by (simp only: case_prod_beta one sum.case)
  from cl have 2: "calls (snd (InstallBundler demo_collab ?w1)) =
        [CallInstallDependency \<lparr>dep_name = ''bundler'', dep_version = ''1.17.3''\<rparr>
           [''deps'', ''0'', ''bundler'']]"
    by (simp only: f c0 dd sum.case append_Nil append.simps)
  have 3: "fst (InstallBundler demo_collab ?w1) = Inr ()"
    and 4: "GetBundlerVersion (snd (InstallBundler demo_collab ?w1)) = ''1.17.3''"
    and 5: "present (filesys (snd (InstallBundler demo_collab ?w1)))
           [''deps'', ''0'', ''bundler'', ''gems'', ''bundler-1.17.3'', ''exe'']"
    and 6: "\<not> present (filesys (snd (InstallBundler demo_collab ?w1)))
           [''deps'', ''0'', ''bundler'', ''gems'', ''bundler-2.0.1'']"
    using p1 p2 by (simp_all add: ib GetBundlerVersion_def SetBundlerVersion_def)
  from 1 3 4 5 6 2 ig show ?thesis
    by (iprover intro: conjI)
qed

subsection \<open>InstallGems\<close>

text \<open>
  C1 at a failing input. The scratch copy \<open>/tmp/app123/app\<close> is created, \<^verbatim>\<open>bundle install\<close>
  fails, \<open>InstallGems\<close> returns that error, and the scratch copy is still there: only
  the last statement of \<open>InstallGems\<close> removes it, and every earlier \<^verbatim>\<open>return\<close> leaves
  it behind.
\<close>

theorem C1_scratch_copy_left_behind:
  "fst (CopyDirToTemp demo_collab (BuildDir demo_collab) demo_world) = Inr [''tmp'', ''app123'', ''app''] \<and>
   fst (InstallGems demo_collab demo_world) = Inl (Error ''exit status 1'') \<and>
   present (filesys (snd (InstallGems demo_collab demo_world))) [''tmp'', ''app123'', ''app'']"
  by code_simp

text \<open>
  C2 at a failing input. With a Gemfile present, \<open>CopyDirToTemp\<close> fails (the copy of the
  build directory exits with an error) and \<open>InstallGems\<close> returns success: the branch
  for this error is \<^verbatim>\<open>return nil\<close>.
\<close>

theorem C2_copy_error_swallowed:
  "fst (CopyDirToTemp cp_fault_collab (BuildDir cp_fault_collab) demo_world) =
     Inl (Error ''Could not copy build dir to temp: exit status 1'') \<and>
   appHasGemfile demo_world \<and>
   fst (InstallGems cp_fault_collab demo_world) = Inr ()"
  by code_simp

subsection \<open>CalcChecksum\<close>


































text \<open>Whatever function computes the 128-bit sum, it does not tell all contents of a
  file apart: for one-file trees there are two different contents with the same digest.
  So a change of the hashed bytes can be said to change the digest only as far as the
  hash function separates the two byte strings.\<close>

lemma digest_not_injective:
  "\<not> (\<forall>s s'. s \<noteq> s' \<longrightarrow>
         CalcChecksum md5 demo_collab (one_file s) \<noteq> CalcChecksum md5 demo_collab (one_file s'))"
proof
  assume "\<forall>s s'. s \<noteq> s' \<longrightarrow>
         CalcChecksum md5 demo_collab (one_file s) \<noteq> CalcChecksum md5 demo_collab (one_file s')"
  then have sens: "\<And>s s'. s \<noteq> s' \<Longrightarrow>
         CalcChecksum md5 demo_collab (one_file s) \<noteq> CalcChecksum md5 demo_collab (one_file s')"
    by blast
  have input: "checksum_input demo_collab (one_file s) = Inr (''a'' @ s)" for s
    by (simp add: checksum_input_def one_file_def demo_collab_def demo_world_def present_def
          lookup_def walk_entries_def walked_def filepath_Rel_def)
  have "inj (\<lambda>s. md5 (''a'' @ s))"
  proof (rule injI)
    fix s s'
    assume "md5 (''a'' @ s) = md5 (''a'' @ s')"
    then have "CalcChecksum md5 demo_collab (one_file s) = CalcChecksum md5 demo_collab (one_file s')"
      by (simp add: CalcChecksum_def input)
    with sens show "s = s'" by blast
  qed
  moreover have "finite (range (\<lambda>s. md5 (''a'' @ s)))"
    by simp
  ultimately have "finite (UNIV :: string set)"
    by (rule finite_imageD [rotated])
  with infinite_UNIV_listI show False by blast
qed




subsection \<open>IndentedWriter\<close>

lemma Write_not_Some:
  assumes "Write w p = Some r"
  shows False
proof (rule Write.raw_induct [where P = "\<lambda>_ _ _. False", OF _ assms])
  fix W :: "IndentedWriter \<Rightarrow> string \<Rightarrow> (IndentedWriter \<times> nat \<times> string option) option"
  fix w p r
  assume "\<And>w p r. W w p = Some r \<Longrightarrow> False" and "W w (repad w p) = Some r"
  then show False by blast
qed

lemma Write_call_receiver: "fst (Write_call n w p) = w"
  by (induction n arbitrary: p) simp_all

text \<open>
  C9. For every input byte slice, \<open>IndentedWriter.Write\<close> never returns: it calls
  itself on the re-padded input, and in every nested call the wrapped writer holds
  exactly the bytes it held before, so nothing is ever written to it.
\<close>

theorem C9_Write_never_returns:
  "Write w p = None \<and> (\<forall>n. iw_w (fst (Write_call n w p)) = iw_w w)"
proof
  show "Write w p = None"
  proof (cases "Write w p")
    case None
    then show ?thesis .
  next
    case (Some r)
    then show ?thesis using Write_not_Some by blast
  qed
  show "\<forall>n. iw_w (fst (Write_call n w p)) = iw_w w"
    by (simp add: Write_call_receiver)
qed

end
